theory Spec2Isabelle
  imports Main
begin

section \<open>Data model of go/vt/worker/sqldiffer.go\<close>

text \<open>
  The worker states, one constructor per constant of the source's \<open>const\<close> block
  (lines 25-34), in the order of declaration. \<open>state_String\<close> is the \<open>String\<close>
  method (line 36): the state is its own text.
\<close>

datatype sqlDiffWorkerState =
    sqlDiffNotSarted
  | sqlDiffDone
  | sqlDiffError
  | sqlDiffFindTargets
  | sqlDiffSynchronizeReplication
  | sqlDiffRunning
  | sqlDiffCleanUp

fun state_String :: "sqlDiffWorkerState \<Rightarrow> string" where
  "state_String sqlDiffNotSarted = ''not started''"
| "state_String sqlDiffDone = ''done''"
| "state_String sqlDiffError = ''error''"
| "state_String sqlDiffFindTargets = ''finding target instances''"
| "state_String sqlDiffSynchronizeReplication = ''synchronizing replication''"
| "state_String sqlDiffRunning = ''running the diff''"
| "state_String sqlDiffCleanUp = ''cleaning up''"

text \<open>
  Types of the packages \<open>topo\<close> and \<open>wrangler\<close> that the file uses and does not declare.
  A tablet alias is a cell and a uid; \<open>GetTablet\<close> answers with a tablet record for an
  alias. Only \<open>TYPE_SPARE\<close> is named by the file; the comments name rdonly and checker.
\<close>

datatype TabletAlias = TabletAlias (Cell: string) (Uid: nat)

datatype TabletInfo = TabletInfo (Alias: TabletAlias)

datatype TabletType = TYPE_SPARE | TYPE_RDONLY | TYPE_CHECKER

text \<open>
  Go's \<open>error\<close> values. \<open>ErrInterrupted\<close> is the sentinel \<open>topo.ErrInterrupted\<close>, compared
  by identity; \<open>ExternalError\<close> is any error a collaborator returns; \<open>Errorf f a e\<close> is
  the fresh error \<open>fmt.Errorf(f, a, e)\<close> of lines 251, 262, 282 and 290, kept with its
  format and its two arguments. A Go \<open>error\<close> that may be nil is an \<open>error option\<close>.
\<close>

datatype error =
    ErrInterrupted
  | ExternalError string
  | Errorf string TabletAlias error

text \<open>
  The worker's context: \<open>ctx.Done()\<close> is closed exactly when \<open>ctx.Err()\<close> is not nil,
  and then it is \<open>context.Canceled\<close> or \<open>context.DeadlineExceeded\<close>.
\<close>

datatype ctxState = ctxActive | ctxCanceled | ctxDeadlineExceeded

text \<open>
  The cleaner (\<open>wrangler.Cleaner\<close>) holds the recorded cleanup actions in the order they
  were recorded. The two kinds of action the file deals with are those of its comment
  at lines 257-258: \<open>ChangeSlaveType\<close> for an alias and \<open>StartSlave\<close> for a tablet.
\<close>

datatype CleanerAction =
    ChangeSlaveTypeAction TabletAlias TabletType
  | StartSlaveAction TabletInfo

type_synonym Cleaner = "CleanerAction list"

text \<open>Handles of the streams and of the differ, and the report the differ returns.\<close>

type_synonym QueryResultReader = nat

type_synonym RowSubsetDiffer = nat

record DiffReport =
  HasDifferences :: bool
  report_String :: string
  processedRows :: int
  processingQPS :: int

datatype which = Superset | Subset

datatype logarg = ArgAlias TabletAlias | ArgError error | ArgString string | ArgInt int

text \<open>
  What a run does that is visible outside the worker, in the order it happens: writes of
  the state (and of the error), writes of an alias, log lines with their format and
  arguments, and the calls to collaborators with what they answered.
\<close>

datatype event =
    EvSetState sqlDiffWorkerState
  | EvRecordError "error option"
  | EvAliasWrite which TabletAlias
  | EvInfof string "logarg list"
  | EvErrorf string "logarg list"
  | EvFindChecker string string string "error option"
  | EvGetTablet TabletAlias "error + TabletInfo"
  | EvStopSlave nat TabletInfo "error option"
  | EvRecordStartSlaveAction TabletInfo
  | EvSleep nat
  | EvCleanUp "error option"
  | EvNewQueryResultReader TabletAlias string "error + QueryResultReader"
  | EvClose QueryResultReader
  | EvNewRowSubsetDiffer QueryResultReader QueryResultReader nat "error + RowSubsetDiffer"
  | EvDifferGo RowSubsetDiffer "error option"

record SourceSpec =
  Keyspace :: string
  Shard :: string
  SQL :: string
  alias' :: TabletAlias

text \<open>
  The worker (lines 52-71). \<open>wr\<close> is the record of collaborators below; \<open>ctx\<close> and
  \<open>ctxCancel\<close> are one field, the context and what cancelling does to it. \<open>trace\<close> is
  not a field of the source: it collects the events of the run.
\<close>

record SQLDiffWorker =
  cell :: string
  shard :: string
  cleaner :: Cleaner
  ctx :: ctxState
  superset :: SourceSpec
  subset :: SourceSpec
  state :: sqlDiffWorkerState
  err :: "error option"
  trace :: "event list"

text \<open>
  The collaborators, none of them in this file: \<open>findChecker\<close>, the topology server's
  \<open>GetTablet\<close>, the tablet manager client's \<open>StopSlave\<close>, the cleaner's \<open>CleanUp\<close>,
  \<open>NewQueryResultReaderForTablet\<close>, \<open>NewRowSubsetDiffer\<close> and the differ's \<open>Go\<close>. Each
  is a parameter; its first argument is the number of events so far, so that two calls
  with the same arguments may answer differently. \<open>findChecker\<close> and \<open>CleanUp\<close> are
  handed the cleaner and return it as they leave it. \<open>cancelArrives\<close> tells whether
  another goroutine has called \<open>Cancel\<close> by the time of a checkpoint; \<open>noActionError\<close>
  is the error of a failed search in the cleaner; \<open>errorText\<close> is the \<open>Error\<close> method of
  the error values.
\<close>

record wrangler =
  findChecker :: "nat \<Rightarrow> Cleaner \<Rightarrow> string \<Rightarrow> string \<Rightarrow> string \<Rightarrow> TabletAlias \<times> error option \<times> Cleaner"
  GetTablet :: "nat \<Rightarrow> TabletAlias \<Rightarrow> error + TabletInfo"
  StopSlave :: "nat \<Rightarrow> nat \<Rightarrow> TabletInfo \<Rightarrow> error option"
  CleanUp :: "nat \<Rightarrow> Cleaner \<Rightarrow> error option \<times> Cleaner"
  NewQueryResultReaderForTablet :: "nat \<Rightarrow> TabletAlias \<Rightarrow> string \<Rightarrow> error + QueryResultReader"
  NewRowSubsetDiffer :: "nat \<Rightarrow> QueryResultReader \<Rightarrow> QueryResultReader \<Rightarrow> nat \<Rightarrow> error + RowSubsetDiffer"
  differ_Go :: "nat \<Rightarrow> RowSubsetDiffer \<Rightarrow> DiffReport \<times> error option"
  cancelArrives :: "nat \<Rightarrow> bool"
  noActionError :: error
  errorText :: "error \<Rightarrow> string"

section \<open>The cleaner's operations\<close>

text \<open>
  Modelled from the spec: \<open>wrangler.RecordStartSlaveAction\<close> and
  \<open>wrangler.FindChangeSlaveTypeActionByTarget\<close> are called at lines 259-260 and 287-288
  and are not in this file. The spec has the cleaner as an ordered, append-only list of
  actions, and the source's comment has the search look for the \<open>ChangeSlaveType\<close>
  action of an alias: recording appends, and the search answers with the position of the
  first \<open>ChangeSlaveType\<close> action for the alias, or fails.
\<close>

definition RecordStartSlaveAction :: "Cleaner \<Rightarrow> TabletInfo \<Rightarrow> Cleaner" where
  "RecordStartSlaveAction c t = c @ [StartSlaveAction t]"

fun isChangeSlaveTypeFor :: "TabletAlias \<Rightarrow> CleanerAction \<Rightarrow> bool" where
  "isChangeSlaveTypeFor a (ChangeSlaveTypeAction b t) = (a = b)"
| "isChangeSlaveTypeFor a (StartSlaveAction t) = False"

fun findAction :: "Cleaner \<Rightarrow> TabletAlias \<Rightarrow> nat option" where
  "findAction [] a = None"
| "findAction (x # xs) a =
     (if isChangeSlaveTypeFor a x then Some 0
      else (case findAction xs a of None \<Rightarrow> None | Some i \<Rightarrow> Some (Suc i)))"

definition FindChangeSlaveTypeActionByTarget :: "wrangler \<Rightarrow> Cleaner \<Rightarrow> TabletAlias \<Rightarrow> error + nat" where
  "FindChangeSlaveTypeActionByTarget wr c a =
     (case findAction c a of None \<Rightarrow> Inl (noActionError wr) | Some i \<Rightarrow> Inr i)"

text \<open>
  \<open>action.TabletType = topo.TYPE_SPARE\<close> (lines 264 and 292) writes through the pointer
  the search returned: the action at that position of the cleaner changes its type.
\<close>

fun setTabletType :: "TabletType \<Rightarrow> CleanerAction \<Rightarrow> CleanerAction" where
  "setTabletType t (ChangeSlaveTypeAction a u) = ChangeSlaveTypeAction a t"
| "setTabletType t (StartSlaveAction i) = StartSlaveAction i"

definition setActionTabletType :: "nat \<Rightarrow> TabletType \<Rightarrow> Cleaner \<Rightarrow> Cleaner" where
  "setActionTabletType i t c = (if i < length c then c[i := setTabletType t (c ! i)] else c)"

section \<open>The worker's operations\<close>

definition emit :: "event \<Rightarrow> SQLDiffWorker \<Rightarrow> SQLDiffWorker" where
  "emit e w = w\<lparr>trace := trace w @ [e]\<rparr>"

definition now :: "SQLDiffWorker \<Rightarrow> nat" where
  "now w = length (trace w)"

text \<open>\<open>NewSQLDiffWorker\<close> (lines 74-87): a fresh cleaner, a live context, not started.\<close>

definition NewSQLDiffWorker :: "string \<Rightarrow> SourceSpec \<Rightarrow> SourceSpec \<Rightarrow> SQLDiffWorker" where
  "NewSQLDiffWorker c superset0 subset0 =
     \<lparr>cell = c, shard = [], cleaner = [], ctx = ctxActive, superset = superset0, subset = subset0,
      state = sqlDiffNotSarted, err = None, trace = []\<rparr>"

text \<open>\<open>setState\<close> (lines 89-93) and \<open>recordError\<close> (lines 95-101).\<close>

definition setState :: "sqlDiffWorkerState \<Rightarrow> SQLDiffWorker \<Rightarrow> SQLDiffWorker" where
  "setState s w = emit (EvSetState s) (w\<lparr>state := s\<rparr>)"

definition recordError :: "error option \<Rightarrow> SQLDiffWorker \<Rightarrow> SQLDiffWorker" where
  "recordError e w = emit (EvRecordError e) (w\<lparr>state := sqlDiffError, err := e\<rparr>)"

text \<open>
  \<open>StatusAsHTML\<close> (lines 104-120) and \<open>StatusAsText\<close> (lines 123-138). In the error
  state both call \<open>worker.err.Error()\<close>, which panics on a nil error: \<open>None\<close>.
\<close>

definition StatusAsHTML :: "wrangler \<Rightarrow> SQLDiffWorker \<Rightarrow> string option" where
  "StatusAsHTML wr w =
     (let result = ''<b>Working on:</b> '' @ Keyspace (subset w) @ ''/'' @ Shard (subset w) @ ''</br>'' @ [CHR 10];
          result = result @ ''<b>State:</b> '' @ state_String (state w) @ ''</br>'' @ [CHR 10]
      in case state w of
           sqlDiffError \<Rightarrow>
             (case err w of
                None \<Rightarrow> None
              | Some e \<Rightarrow> Some (result @ ''<b>Error</b>: '' @ errorText wr e @ ''</br>'' @ [CHR 10]))
         | sqlDiffRunning \<Rightarrow> Some (result @ ''<b>Running...</b></br>'' @ [CHR 10])
         | sqlDiffDone \<Rightarrow> Some (result @ ''<b>Success.</b></br>'' @ [CHR 10])
         | _ \<Rightarrow> Some result)"

definition StatusAsText :: "wrangler \<Rightarrow> SQLDiffWorker \<Rightarrow> string option" where
  "StatusAsText wr w =
     (let result = ''Working on: '' @ Keyspace (subset w) @ ''/'' @ Shard (subset w) @ [CHR 10];
          result = result @ ''State: '' @ state_String (state w) @ [CHR 10]
      in case state w of
           sqlDiffError \<Rightarrow>
             (case err w of
                None \<Rightarrow> None
              | Some e \<Rightarrow> Some (result @ ''Error: '' @ errorText wr e @ [CHR 10]))
         | sqlDiffRunning \<Rightarrow> Some (result @ ''Running...'' @ [CHR 10])
         | sqlDiffDone \<Rightarrow> Some (result @ ''Success.'' @ [CHR 10])
         | _ \<Rightarrow> Some result)"

text \<open>
  \<open>Cancel\<close> (lines 141-143) calls the context's cancel function: a live context becomes
  cancelled, a context that is already done keeps its error.
\<close>

definition Cancel :: "SQLDiffWorker \<Rightarrow> SQLDiffWorker" where
  "Cancel w = w\<lparr>ctx := (if ctx w = ctxActive then ctxCanceled else ctx w)\<rparr>"

text \<open>
  \<open>checkInterrupted\<close> (lines 145-156): the \<open>default\<close> branch of the \<open>select\<close> is the live
  context.
\<close>

definition checkInterrupted :: "SQLDiffWorker \<Rightarrow> bool \<times> SQLDiffWorker" where
  "checkInterrupted w =
     (case ctx w of
        ctxActive \<Rightarrow> (False, w)
      | ctxDeadlineExceeded \<Rightarrow> (False, w)
      | ctxCanceled \<Rightarrow> (True, recordError (Some ErrInterrupted) w))"

text \<open>
  \<open>Cancel\<close> may be called by another goroutine while the run proceeds. The run reads the
  context only in \<open>checkInterrupted\<close>, so a concurrent call takes effect at the
  checkpoint that is the first to see it.
\<close>

definition concurrently :: "wrangler \<Rightarrow> SQLDiffWorker \<Rightarrow> SQLDiffWorker" where
  "concurrently wr w = (if cancelArrives wr (now w) then Cancel w else w)"

text \<open>\<open>Error\<close> (lines 178-180).\<close>

definition Error :: "SQLDiffWorker \<Rightarrow> error option" where
  "Error w = err w"

text \<open>\<open>findTargets\<close> (lines 214-231). The alias is assigned whatever \<open>findChecker\<close>
  returned, also when it returned an error.\<close>

definition findTargets :: "wrangler \<Rightarrow> SQLDiffWorker \<Rightarrow> error option \<times> SQLDiffWorker" where
  "findTargets wr w =
     (let w1 = setState sqlDiffFindTargets w in
      case findChecker wr (now w1) (cleaner w1) (cell w1) (Keyspace (superset w1)) (Shard (superset w1)) of
        (a, e, c) \<Rightarrow>
          (let w2 = emit (EvFindChecker (cell w1) (Keyspace (superset w1)) (Shard (superset w1)) e) w1;
               w3 = emit (EvAliasWrite Superset a) (w2\<lparr>superset := (superset w2)\<lparr>alias' := a\<rparr>, cleaner := c\<rparr>)
           in if e \<noteq> None then (e, w3)
              else
                (case findChecker wr (now w3) (cleaner w3) (cell w3) (Keyspace (subset w3)) (Shard (subset w3)) of
                   (a', e', c') \<Rightarrow>
                     (let w4 = emit (EvFindChecker (cell w3) (Keyspace (subset w3)) (Shard (subset w3)) e') w3;
                          w5 = emit (EvAliasWrite Subset a') (w4\<lparr>subset := (subset w4)\<lparr>alias' := a'\<rparr>, cleaner := c'\<rparr>)
                      in if e' \<noteq> None then (e', w5) else (None, w5)))))"

text \<open>
  \<open>synchronizeReplication\<close> (lines 238-295). Both calls of \<open>StopSlave\<close> run under a
  context with a timeout of 60 seconds; the sleep is 5 seconds.
\<close>

definition synchronizeReplication :: "wrangler \<Rightarrow> SQLDiffWorker \<Rightarrow> error option \<times> SQLDiffWorker" where
  "synchronizeReplication wr w =
     (let w1 = setState sqlDiffSynchronizeReplication w;
          w2 = emit (EvInfof ''Stopping replication on subset slave %v'' [ArgAlias (alias' (subset w1))]) w1;
          r = GetTablet wr (now w2) (alias' (subset w2));
          w3 = emit (EvGetTablet (alias' (subset w2)) r) w2
      in case r of
        Inl e \<Rightarrow> (Some e, w3)
      | Inr subsetTablet \<Rightarrow>
     (let s = StopSlave wr (now w3) 60 subsetTablet;
          w4 = emit (EvStopSlave 60 subsetTablet s) w3
      in case s of
        Some e \<Rightarrow> (Some (Errorf ''Cannot stop slave %v: %v'' (alias' (subset w4)) e), w4)
      | None \<Rightarrow>
     (case checkInterrupted (concurrently wr w4) of
        (True, w5) \<Rightarrow> (Some ErrInterrupted, w5)
      | (False, w5) \<Rightarrow>
     (let w6 = emit (EvRecordStartSlaveAction subsetTablet)
                 (w5\<lparr>cleaner := RecordStartSlaveAction (cleaner w5) subsetTablet\<rparr>)
      in case FindChangeSlaveTypeActionByTarget wr (cleaner w6) (alias' (subset w6)) of
        Inl e \<Rightarrow> (Some (Errorf ''cannot find ChangeSlaveType action for %v: %v'' (alias' (subset w6)) e), w6)
      | Inr action \<Rightarrow>
     (let w7 = w6\<lparr>cleaner := setActionTabletType action TYPE_SPARE (cleaner w6)\<rparr>;
          w8 = emit (EvSleep 5) w7
      in case checkInterrupted (concurrently wr w8) of
        (True, w9) \<Rightarrow> (Some ErrInterrupted, w9)
      | (False, w9) \<Rightarrow>
     (let w10 = emit (EvInfof ''Stopping replication on superset slave %v'' [ArgAlias (alias' (superset w9))]) w9;
          r' = GetTablet wr (now w10) (alias' (superset w10));
          w11 = emit (EvGetTablet (alias' (superset w10)) r') w10
      in case r' of
        Inl e \<Rightarrow> (Some e, w11)
      | Inr supersetTablet \<Rightarrow>
     (let s' = StopSlave wr (now w11) 60 supersetTablet;
          w12 = emit (EvStopSlave 60 supersetTablet s') w11
      in case s' of
        Some e \<Rightarrow> (Some (Errorf ''Cannot stop slave %v: %v'' (alias' (superset w12)) e), w12)
      | None \<Rightarrow>
     (let w13 = emit (EvRecordStartSlaveAction supersetTablet)
                  (w12\<lparr>cleaner := RecordStartSlaveAction (cleaner w12) supersetTablet\<rparr>)
      in case FindChangeSlaveTypeActionByTarget wr (cleaner w13) (alias' (superset w13)) of
        Inl e \<Rightarrow> (Some (Errorf ''cannot find ChangeSlaveType action for %v: %v'' (alias' (superset w13)) e), w13)
      | Inr action' \<Rightarrow>
          (None, w13\<lparr>cleaner := setActionTabletType action' TYPE_SPARE (cleaner w13)\<rparr>)))))))))"

text \<open>
  \<open>diff\<close> (lines 302-339). A deferred \<open>Close\<close> runs when the function returns, the last
  deferred first: every exit after a \<open>defer\<close> ends with the closes registered so far.
\<close>

definition diff :: "wrangler \<Rightarrow> SQLDiffWorker \<Rightarrow> error option \<times> SQLDiffWorker" where
  "diff wr w =
     (let w1 = setState sqlDiffRunning w;
          w2 = emit (EvInfof ''Running the diffs...'' []) w1;
          r = NewQueryResultReaderForTablet wr (now w2) (alias' (superset w2)) (SQL (superset w2));
          w3 = emit (EvNewQueryResultReader (alias' (superset w2)) (SQL (superset w2)) r) w2
      in case r of
        Inl e \<Rightarrow>
          (Some e, emit (EvErrorf ''NewQueryResultReaderForTablet(superset) failed: %v'' [ArgError e]) w3)
      | Inr supersetQueryResultReader \<Rightarrow>
     (let r' = NewQueryResultReaderForTablet wr (now w3) (alias' (subset w3)) (SQL (subset w3));
          w4 = emit (EvNewQueryResultReader (alias' (subset w3)) (SQL (subset w3)) r') w3
      in case r' of
        Inl e \<Rightarrow>
          (Some e, emit (EvClose supersetQueryResultReader)
                     (emit (EvErrorf ''NewQueryResultReaderForTablet(subset) failed: %v'' [ArgError e]) w4))
      | Inr subsetQueryResultReader \<Rightarrow>
     (let d = NewRowSubsetDiffer wr (now w4) supersetQueryResultReader subsetQueryResultReader 1;
          w5 = emit (EvNewRowSubsetDiffer supersetQueryResultReader subsetQueryResultReader 1 d) w4
      in case d of
        Inl e \<Rightarrow>
          (Some e, emit (EvClose supersetQueryResultReader)
                     (emit (EvClose subsetQueryResultReader)
                        (emit (EvErrorf ''NewRowSubsetDiffer() failed: %v'' [ArgError e]) w5)))
      | Inr differ \<Rightarrow>
     (case differ_Go wr (now w5) differ of
        (report, gerr) \<Rightarrow>
     (let w6 = emit (EvDifferGo differ gerr) w5;
          w7 = (case gerr of
                  Some e \<Rightarrow> emit (EvErrorf ''Differ.Go failed: %v'' [ArgError e]) w6
                | None \<Rightarrow>
                    if HasDifferences report
                    then emit (EvInfof ''Found differences: %v'' [ArgString (report_String report)]) w6
                    else emit (EvInfof ''No difference found (%v rows processed, %v qps)''
                                 [ArgInt (processedRows report), ArgInt (processingQPS report)]) w6)
      in (None, emit (EvClose supersetQueryResultReader) (emit (EvClose subsetQueryResultReader) w7)))))))"

text \<open>\<open>run\<close> (lines 182-208).\<close>

definition run :: "wrangler \<Rightarrow> SQLDiffWorker \<Rightarrow> error option \<times> SQLDiffWorker" where
  "run wr w =
     (case findTargets wr w of
        (Some e, w1) \<Rightarrow> (Some e, w1)
      | (None, w1) \<Rightarrow>
     (case checkInterrupted (concurrently wr w1) of
        (True, w2) \<Rightarrow> (Some ErrInterrupted, w2)
      | (False, w2) \<Rightarrow>
     (case synchronizeReplication wr w2 of
        (Some e, w3) \<Rightarrow>
          (case checkInterrupted (concurrently wr w3) of
             (True, w4) \<Rightarrow> (Some ErrInterrupted, w4)
           | (False, w4) \<Rightarrow> (Some e, w4))
      | (None, w3) \<Rightarrow>
     (case checkInterrupted (concurrently wr w3) of
        (True, w4) \<Rightarrow> (Some ErrInterrupted, w4)
      | (False, w4) \<Rightarrow>
     (case diff wr w4 of
        (Some e, w5) \<Rightarrow> (Some e, w5)
      | (None, w5) \<Rightarrow> (None, w5))))))"

text \<open>
  \<open>Run\<close> (lines 159-176). \<open>cleanerCleanUp\<close> is the call \<open>worker.cleaner.CleanUp(worker.wr)\<close>
  of line 163.
\<close>

definition cleanerCleanUp :: "wrangler \<Rightarrow> SQLDiffWorker \<Rightarrow> error option \<times> SQLDiffWorker" where
  "cleanerCleanUp wr w =
     (case CleanUp wr (now w) (cleaner w) of
        (cerr, c) \<Rightarrow> (cerr, emit (EvCleanUp cerr) (w\<lparr>cleaner := c\<rparr>)))"

definition Run :: "wrangler \<Rightarrow> SQLDiffWorker \<Rightarrow> SQLDiffWorker" where
  "Run wr w =
     (case run wr w of
        (err0, w1) \<Rightarrow>
     (case cleanerCleanUp wr (setState sqlDiffCleanUp w1) of
        (cerr, w2) \<Rightarrow>
     (case (case cerr of
              Some c \<Rightarrow>
                (if err0 \<noteq> None
                 then (err0, emit (EvErrorf ''CleanUp failed in addition to job error: %v''
                                     [ArgError c]) w2)
                 else (cerr, w2))
            | None \<Rightarrow> (err0, w2)) of
        (err1, w3) \<Rightarrow>
          if err1 \<noteq> None then recordError err1 w3 else setState sqlDiffDone w3)))"

section \<open>Reading a trace\<close>

text \<open>
  The events of one kind, in the order of the trace: the states written (\<open>recordError\<close>
  writes \<open>sqlDiffError\<close>), the errors written, the calls of the cleaner with what they
  returned, the writes of an alias, the calls of \<open>StopSlave\<close> with their timeout, tablet
  and result, and the streams opened and closed.
\<close>

fun stateWriteOf :: "event \<Rightarrow> sqlDiffWorkerState list" where
  "stateWriteOf (EvSetState s) = [s]"
| "stateWriteOf (EvRecordError e) = [sqlDiffError]"
| "stateWriteOf _ = []"

definition stateWrites :: "event list \<Rightarrow> sqlDiffWorkerState list" where
  "stateWrites es = concat (map stateWriteOf es)"

fun errorWriteOf :: "event \<Rightarrow> error option list" where
  "errorWriteOf (EvRecordError e) = [e]"
| "errorWriteOf _ = []"

definition errorWrites :: "event list \<Rightarrow> error option list" where
  "errorWrites es = concat (map errorWriteOf es)"

fun cleanupOf :: "event \<Rightarrow> error option list" where
  "cleanupOf (EvCleanUp r) = [r]"
| "cleanupOf _ = []"

definition cleanups :: "event list \<Rightarrow> error option list" where
  "cleanups es = concat (map cleanupOf es)"

fun aliasWriteOf :: "event \<Rightarrow> (which \<times> TabletAlias) list" where
  "aliasWriteOf (EvAliasWrite x a) = [(x, a)]"
| "aliasWriteOf _ = []"

definition aliasWrites :: "event list \<Rightarrow> (which \<times> TabletAlias) list" where
  "aliasWrites es = concat (map aliasWriteOf es)"

fun stopSlaveOf :: "event \<Rightarrow> (nat \<times> TabletInfo \<times> error option) list" where
  "stopSlaveOf (EvStopSlave n t r) = [(n, t, r)]"
| "stopSlaveOf _ = []"

definition stopSlaves :: "event list \<Rightarrow> (nat \<times> TabletInfo \<times> error option) list" where
  "stopSlaves es = concat (map stopSlaveOf es)"

fun openedOf :: "event \<Rightarrow> QueryResultReader list" where
  "openedOf (EvNewQueryResultReader a q (Inr r)) = [r]"
| "openedOf _ = []"

definition openedReaders :: "event list \<Rightarrow> QueryResultReader list" where
  "openedReaders es = concat (map openedOf es)"

fun closedOf :: "event \<Rightarrow> QueryResultReader list" where
  "closedOf (EvClose r) = [r]"
| "closedOf _ = []"

definition closedReaders :: "event list \<Rightarrow> QueryResultReader list" where
  "closedReaders es = concat (map closedOf es)"

text \<open>
  The errors collaborators returned that the phases hand on as they are: those of
  \<open>findChecker\<close>, \<open>GetTablet\<close>, \<open>NewQueryResultReaderForTablet\<close> and \<open>NewRowSubsetDiffer\<close>.
  (An error of \<open>StopSlave\<close> is wrapped, one of the differ's \<open>Go\<close> is only logged.)
\<close>

fun passedErrorOf :: "event \<Rightarrow> error list" where
  "passedErrorOf (EvFindChecker c k s (Some e)) = [e]"
| "passedErrorOf (EvGetTablet a (Inl e)) = [e]"
| "passedErrorOf (EvNewQueryResultReader a q (Inl e)) = [e]"
| "passedErrorOf (EvNewRowSubsetDiffer r r' k (Inl e)) = [e]"
| "passedErrorOf _ = []"

definition passedErrors :: "event list \<Rightarrow> error list" where
  "passedErrors es = concat (map passedErrorOf es)"

text \<open>The events an operation added: those of \<open>w'\<close> after the ones \<open>w\<close> already had.\<close>

definition newEvents :: "SQLDiffWorker \<Rightarrow> SQLDiffWorker \<Rightarrow> event list" where
  "newEvents w w' = drop (length (trace w)) (trace w')"

text \<open>What \<open>run\<close> returned, what the cleaner returned after it, and the error \<open>Run\<close> keeps.\<close>

definition runError :: "wrangler \<Rightarrow> SQLDiffWorker \<Rightarrow> error option" where
  "runError wr w = fst (run wr w)"

definition cleanupError :: "wrangler \<Rightarrow> SQLDiffWorker \<Rightarrow> error option" where
  "cleanupError wr w = fst (cleanerCleanUp wr (setState sqlDiffCleanUp (snd (run wr w))))"

definition retainedError :: "wrangler \<Rightarrow> SQLDiffWorker \<Rightarrow> error option" where
  "retainedError wr w = (case runError wr w of Some e \<Rightarrow> Some e | None \<Rightarrow> cleanupError wr w)"

text \<open>The states written while \<open>run\<close> was at work, before \<open>Run\<close> goes on.\<close>

definition phaseWrites :: "wrangler \<Rightarrow> SQLDiffWorker \<Rightarrow> sqlDiffWorkerState list" where
  "phaseWrites wr w = drop (length (stateWrites (trace w))) (stateWrites (trace (snd (run wr w))))"

text \<open>
  The order of the states as the specification gives it: not started, finding targets,
  synchronizing replication, running, cleaning up, and then done or error.
\<close>

fun stateRank :: "sqlDiffWorkerState \<Rightarrow> nat" where
  "stateRank sqlDiffNotSarted = 0"
| "stateRank sqlDiffFindTargets = 1"
| "stateRank sqlDiffSynchronizeReplication = 2"
| "stateRank sqlDiffRunning = 3"
| "stateRank sqlDiffCleanUp = 4"
| "stateRank sqlDiffDone = 5"
| "stateRank sqlDiffError = 5"

definition movesForward :: "sqlDiffWorkerState \<Rightarrow> sqlDiffWorkerState \<Rightarrow> bool" where
  "movesForward a b = (stateRank a < stateRank b)"

text \<open>The claim of monotonicity at its weakest: a write never goes to a lower rank.\<close>

definition notBackward :: "sqlDiffWorkerState \<Rightarrow> sqlDiffWorkerState \<Rightarrow> bool" where
  "notBackward a b = (stateRank a \<le> stateRank b)"

text \<open>
  A step of the state as the code makes it: forward, or from the error state that
  \<open>checkInterrupted\<close> recorded to the error state again or to cleaning up.
\<close>

definition stepOfRun :: "sqlDiffWorkerState \<Rightarrow> sqlDiffWorkerState \<Rightarrow> bool" where
  "stepOfRun a b = (movesForward a b \<or> a = sqlDiffError \<and> (b = sqlDiffError \<or> b = sqlDiffCleanUp))"

text \<open>
  No cancellation can be seen during the run: the context is done by its deadline (a
  later \<open>Cancel\<close> changes nothing), or it is live and no \<open>Cancel\<close> arrives.
\<close>

definition neverCancelled :: "wrangler \<Rightarrow> SQLDiffWorker \<Rightarrow> bool" where
  "neverCancelled wr w = (ctx w = ctxDeadlineExceeded \<or> ctx w = ctxActive \<and> (\<forall>t. \<not> cancelArrives wr t))"

section \<open>The status as the specification words it\<close>

text \<open>
  The two renderings are said to carry the same information: the target, the text of
  the state, and a third line that is the error text in the error state, a running
  marker while running, a success marker when done and absent otherwise. \<open>statusInfo\<close>
  is that information (\<open>None\<close> where the source panics), and \<open>renderStatus\<close> lays it out
  with a markup: how a label is set in bold and how a line ends.
\<close>

datatype thirdLine = ErrorText string | RunningMarker | SuccessMarker

record markup =
  bold :: "string \<Rightarrow> string"
  lineEnd :: string

definition textMarkup :: markup where
  "textMarkup = \<lparr>bold = (\<lambda>s. s), lineEnd = [CHR 10]\<rparr>"

definition htmlMarkup :: markup where
  "htmlMarkup = \<lparr>bold = (\<lambda>s. ''<b>'' @ s @ ''</b>''), lineEnd = ''</br>'' @ [CHR 10]\<rparr>"

definition statusInfo :: "wrangler \<Rightarrow> SQLDiffWorker \<Rightarrow> (string \<times> string \<times> thirdLine option) option" where
  "statusInfo wr w =
     (let target = Keyspace (subset w) @ ''/'' @ Shard (subset w);
          st = state_String (state w)
      in if state w = sqlDiffError
         then (case err w of None \<Rightarrow> None | Some e \<Rightarrow> Some (target, st, Some (ErrorText (errorText wr e))))
         else if state w = sqlDiffRunning then Some (target, st, Some RunningMarker)
         else if state w = sqlDiffDone then Some (target, st, Some SuccessMarker)
         else Some (target, st, None))"

fun renderThird :: "markup \<Rightarrow> thirdLine option \<Rightarrow> string" where
  "renderThird m None = []"
| "renderThird m (Some (ErrorText e)) = bold m ''Error'' @ '': '' @ e @ lineEnd m"
| "renderThird m (Some RunningMarker) = bold m ''Running...'' @ lineEnd m"
| "renderThird m (Some SuccessMarker) = bold m ''Success.'' @ lineEnd m"

fun renderStatus :: "markup \<Rightarrow> string \<times> string \<times> thirdLine option \<Rightarrow> string" where
  "renderStatus m (target, st, third) =
     bold m ''Working on:'' @ '' '' @ target @ lineEnd m @
     bold m ''State:'' @ '' '' @ st @ lineEnd m @
     renderThird m third"

section \<open>Example collaborators and workers\<close>

text \<open>
  An example of the \<open>Error\<close> method. The texts come from packages that are not in this
  file: a collaborator's error is its own text, the sentinel reads \<open>interrupted\<close>, and
  the error of \<open>fmt.Errorf\<close> is its format with each \<open>%v\<close> replaced by the text of the
  next argument, where the text of an alias is its cell, a dash and its uid in ten
  digits. No statement below depends on these texts.
\<close>

fun decimal :: "nat \<Rightarrow> string" where
  "decimal n =
     (if n < 10 then [''0123456789'' ! n]
      else decimal (n div 10) @ [''0123456789'' ! (n mod 10)])"

declare decimal.simps [simp del]

definition exampleAliasText :: "TabletAlias \<Rightarrow> string" where
  "exampleAliasText a =
     Cell a @ ''-'' @ replicate (10 - length (decimal (Uid a))) (CHR ''0'') @ decimal (Uid a)"

fun substVerbs :: "string \<Rightarrow> string list \<Rightarrow> string" where
  "substVerbs [] args = []"
| "substVerbs [c] args = [c]"
| "substVerbs (c # d # cs) args =
     (if c = CHR ''%'' \<and> d = CHR ''v''
      then (case args of
              [] \<Rightarrow> ''%!v(MISSING)'' @ substVerbs cs []
            | a # as \<Rightarrow> a @ substVerbs cs as)
      else c # substVerbs (d # cs) args)"

fun exampleErrorText :: "error \<Rightarrow> string" where
  "exampleErrorText ErrInterrupted = ''interrupted''"
| "exampleErrorText (ExternalError s) = s"
| "exampleErrorText (Errorf f a e) = substVerbs f [exampleAliasText a, exampleErrorText e]"

text \<open>
  A cluster where everything succeeds: \<open>findChecker\<close> reserves the replica whose uid is
  the length of the keyspace name and records its \<open>ChangeSlaveType\<close> action, every
  remote call succeeds, the differ finds no difference, nobody cancels.
\<close>

definition exampleReport :: DiffReport where
  "exampleReport = \<lparr>HasDifferences = False, report_String = [], processedRows = 2, processingQPS = 1\<rparr>"

definition exampleWrangler :: wrangler where
  "exampleWrangler =
     \<lparr>findChecker = (\<lambda>t c cl ks sh.
        (TabletAlias cl (length ks), None,
         c @ [ChangeSlaveTypeAction (TabletAlias cl (length ks)) TYPE_RDONLY])),
      GetTablet = (\<lambda>t a. Inr (TabletInfo a)),
      StopSlave = (\<lambda>t n i. None),
      CleanUp = (\<lambda>t c. (None, c)),
      NewQueryResultReaderForTablet = (\<lambda>t a q. Inr (Uid a)),
      NewRowSubsetDiffer = (\<lambda>t r r' k. Inr 0),
      differ_Go = (\<lambda>t d. (exampleReport, None)),
      cancelArrives = (\<lambda>t. False),
      noActionError = ExternalError ''node does not exist'',
      errorText = exampleErrorText\<rparr>"

definition exampleSpec :: "string \<Rightarrow> SourceSpec" where
  "exampleSpec k = \<lparr>Keyspace = k, Shard = ''0'', SQL = ''select id from t'', alias' = TabletAlias [] 0\<rparr>"

definition exampleWorker :: SQLDiffWorker where
  "exampleWorker = NewSQLDiffWorker ''c1'' (exampleSpec ''big'') (exampleSpec ''small'')"

text \<open>The same cluster, but the differ's \<open>Go\<close> fails while reading a stream.\<close>

definition differFailsWrangler :: wrangler where
  "differFailsWrangler =
     exampleWrangler\<lparr>differ_Go := (\<lambda>t d. (exampleReport, Some (ExternalError ''read error'')))\<rparr>"

text \<open>
  The same cluster, but \<open>Cancel\<close> is called while the first \<open>StopSlave\<close> is in flight: the
  checkpoint of line 253 comes after nine events (five of the discovery, then the state,
  the log line, \<open>GetTablet\<close> and \<open>StopSlave\<close>).
\<close>

definition cancelDuringHaltWrangler :: wrangler where
  "cancelDuringHaltWrangler = exampleWrangler\<lparr>cancelArrives := (\<lambda>t. 9 \<le> t)\<rparr>"

text \<open>The same cluster, but no replica can be found for the superset.\<close>

definition noReplicaWrangler :: wrangler where
  "noReplicaWrangler =
     exampleWrangler\<lparr>findChecker := (\<lambda>t c cl ks sh.
        (TabletAlias [] 0, Some (ExternalError ''no replica''), c))\<rparr>"

text \<open>The same cluster, but \<open>findChecker\<close> records no cleanup action.\<close>

definition noActionWrangler :: wrangler where
  "noActionWrangler =
     exampleWrangler\<lparr>findChecker := (\<lambda>t c cl ks sh. (TabletAlias cl (length ks), None, c))\<rparr>"

text \<open>The same cluster, but every \<open>StopSlave\<close> times out.\<close>

definition haltTimesOutWrangler :: wrangler where
  "haltTimesOutWrangler =
     exampleWrangler\<lparr>StopSlave := (\<lambda>t n i. Some (ExternalError ''deadline exceeded''))\<rparr>"

text \<open>
  Workers at the entry of the synchronization: after a discovery that recorded both
  actions, after one that recorded none, and with the action of the subset alone.
\<close>

definition readyWorker :: SQLDiffWorker where
  "readyWorker = snd (findTargets exampleWrangler exampleWorker)"

definition haltedWorker :: SQLDiffWorker where
  "haltedWorker = snd (findTargets noActionWrangler exampleWorker)"

definition subsetOnlyWorker :: SQLDiffWorker where
  "subsetOnlyWorker =
     haltedWorker\<lparr>cleaner := [ChangeSlaveTypeAction (TabletAlias ''c1'' 5) TYPE_RDONLY]\<rparr>"

text \<open>No action recorded, and \<open>Cancel\<close> called while the first \<open>StopSlave\<close> is in flight.\<close>

definition noActionCancelWrangler :: wrangler where
  "noActionCancelWrangler = noActionWrangler\<lparr>cancelArrives := (\<lambda>t. 9 \<le> t)\<rparr>"

text \<open>
  The same cluster, but the topology server answers \<open>GetTablet\<close> with the interrupted
  error, while nobody cancels the worker.
\<close>

definition interruptedTopoWrangler :: wrangler where
  "interruptedTopoWrangler = exampleWrangler\<lparr>GetTablet := (\<lambda>t a. Inl ErrInterrupted)\<rparr>"

section \<open>Basic facts\<close>

text \<open>The definitions to unfold when a run is evaluated on an example.\<close>

lemmas example_defs = exampleWrangler_def exampleWorker_def NewSQLDiffWorker_def exampleSpec_def
  exampleReport_def

lemmas unfold_all = Run_def run_def findTargets_def synchronizeReplication_def diff_def
  cleanerCleanUp_def checkInterrupted_def concurrently_def Cancel_def
  FindChangeSlaveTypeActionByTarget_def RecordStartSlaveAction_def setActionTabletType_def Let_def

lemma stateWrites_simps [simp]:
  "stateWrites [] = []"
  "stateWrites (xs @ ys) = stateWrites xs @ stateWrites ys"
  "stateWrites (e # es) = stateWriteOf e @ stateWrites es"
  by (simp_all add: stateWrites_def)

lemma errorWrites_simps [simp]:
  "errorWrites [] = []"
  "errorWrites (xs @ ys) = errorWrites xs @ errorWrites ys"
  "errorWrites (e # es) = errorWriteOf e @ errorWrites es"
  by (simp_all add: errorWrites_def)

lemma cleanups_simps [simp]:
  "cleanups [] = []"
  "cleanups (xs @ ys) = cleanups xs @ cleanups ys"
  "cleanups (e # es) = cleanupOf e @ cleanups es"
  by (simp_all add: cleanups_def)

lemma aliasWrites_simps [simp]:
  "aliasWrites [] = []"
  "aliasWrites (xs @ ys) = aliasWrites xs @ aliasWrites ys"
  "aliasWrites (e # es) = aliasWriteOf e @ aliasWrites es"
  by (simp_all add: aliasWrites_def)

lemma stopSlaves_simps [simp]:
  "stopSlaves [] = []"
  "stopSlaves (xs @ ys) = stopSlaves xs @ stopSlaves ys"
  "stopSlaves (e # es) = stopSlaveOf e @ stopSlaves es"
  by (simp_all add: stopSlaves_def)

lemma openedReaders_simps [simp]:
  "openedReaders [] = []"
  "openedReaders (xs @ ys) = openedReaders xs @ openedReaders ys"
  "openedReaders (e # es) = openedOf e @ openedReaders es"
  by (simp_all add: openedReaders_def)

lemma closedReaders_simps [simp]:
  "closedReaders [] = []"
  "closedReaders (xs @ ys) = closedReaders xs @ closedReaders ys"
  "closedReaders (e # es) = closedOf e @ closedReaders es"
  by (simp_all add: closedReaders_def)

lemma passedErrors_simps [simp]:
  "passedErrors [] = []"
  "passedErrors (xs @ ys) = passedErrors xs @ passedErrors ys"
  "passedErrors (e # es) = passedErrorOf e @ passedErrors es"
  by (simp_all add: passedErrors_def)

text \<open>What the small operations do to each field.\<close>

lemma emit_fields [simp]:
  "trace (emit e w) = trace w @ [e]"
  "now (emit e w) = Suc (now w)"
  "cleaner (emit e w) = cleaner w"
  "ctx (emit e w) = ctx w"
  "superset (emit e w) = superset w"
  "subset (emit e w) = subset w"
  "state (emit e w) = state w"
  "err (emit e w) = err w"
  "cell (emit e w) = cell w"
  by (simp_all add: emit_def now_def)

lemma now_update [simp]:
  "now (w\<lparr>cleaner := c\<rparr>) = now w"
  "now (w\<lparr>superset := sp\<rparr>) = now w"
  "now (w\<lparr>subset := sp\<rparr>) = now w"
  "now (w\<lparr>ctx := x\<rparr>) = now w"
  by (simp_all add: now_def)

lemma setState_fields [simp]:
  "trace (setState s w) = trace w @ [EvSetState s]"
  "now (setState s w) = Suc (now w)"
  "cleaner (setState s w) = cleaner w"
  "ctx (setState s w) = ctx w"
  "superset (setState s w) = superset w"
  "subset (setState s w) = subset w"
  "state (setState s w) = s"
  "err (setState s w) = err w"
  "cell (setState s w) = cell w"
  by (simp_all add: setState_def now_def emit_def)

lemma recordError_fields [simp]:
  "trace (recordError e w) = trace w @ [EvRecordError e]"
  "now (recordError e w) = Suc (now w)"
  "cleaner (recordError e w) = cleaner w"
  "ctx (recordError e w) = ctx w"
  "superset (recordError e w) = superset w"
  "subset (recordError e w) = subset w"
  "state (recordError e w) = sqlDiffError"
  "err (recordError e w) = e"
  "cell (recordError e w) = cell w"
  by (simp_all add: recordError_def now_def emit_def)

text \<open>A checkpoint: \<open>checkInterrupted\<close> after whatever \<open>Cancel\<close> arrived.\<close>

lemma checkpoint_fields:
  "trace (snd (checkInterrupted (concurrently wr w))) =
     trace w @ (if fst (checkInterrupted (concurrently wr w)) then [EvRecordError (Some ErrInterrupted)] else [])"
  "now (snd (checkInterrupted (concurrently wr w))) =
     (if fst (checkInterrupted (concurrently wr w)) then Suc (now w) else now w)"
  "cleaner (snd (checkInterrupted (concurrently wr w))) = cleaner w"
  "superset (snd (checkInterrupted (concurrently wr w))) = superset w"
  "subset (snd (checkInterrupted (concurrently wr w))) = subset w"
  "cell (snd (checkInterrupted (concurrently wr w))) = cell w"
  "state (snd (checkInterrupted (concurrently wr w))) =
     (if fst (checkInterrupted (concurrently wr w)) then sqlDiffError else state w)"
  "err (snd (checkInterrupted (concurrently wr w))) =
     (if fst (checkInterrupted (concurrently wr w)) then Some ErrInterrupted else err w)"
  by (simp_all add: checkInterrupted_def concurrently_def Cancel_def now_def split: ctxState.splits)

section \<open>The cleaner is called by \<open>Run\<close> alone\<close>

lemma findTargets_cleanups:
  "cleanups (trace (snd (findTargets wr w))) = cleanups (trace w)"
  by (simp add: findTargets_def Let_def split: prod.splits)

lemma synchronizeReplication_cleanups:
  "cleanups (trace (snd (synchronizeReplication wr w))) = cleanups (trace w)"
  by (simp add: synchronizeReplication_def Let_def case_prod_beta checkpoint_fields
      split: sum.splits option.splits bool.splits)

lemma diff_cleanups:
  "cleanups (trace (snd (diff wr w))) = cleanups (trace w)"
  by (simp add: diff_def Let_def split: prod.splits sum.splits option.splits)

lemma run_cleanups:
  "cleanups (trace (snd (run wr w))) = cleanups (trace w)"
  by (simp add: run_def case_prod_beta findTargets_cleanups synchronizeReplication_cleanups
      diff_cleanups checkpoint_fields split: option.splits bool.splits)

text \<open>Everything \<open>Run\<close> does once \<open>run\<close> has returned, event by event.\<close>

lemma Run_events:
  "trace (Run wr w) = trace (snd (run wr w)) @
     EvSetState sqlDiffCleanUp # EvCleanUp (cleanupError wr w) #
     (case cleanupError wr w of
        Some c \<Rightarrow>
          (case runError wr w of
             Some e \<Rightarrow> [EvErrorf ''CleanUp failed in addition to job error: %v'' [ArgError c]]
           | None \<Rightarrow> [])
      | None \<Rightarrow> []) @
     [case retainedError wr w of None \<Rightarrow> EvSetState sqlDiffDone | Some e \<Rightarrow> EvRecordError (Some e)]"
  by (simp add: Run_def cleanerCleanUp_def cleanupError_def runError_def retainedError_def
      case_prod_beta split: option.splits)

lemma Run_state:
  "state (Run wr w) = (if retainedError wr w = None then sqlDiffDone else sqlDiffError)"
  by (simp add: Run_def cleanerCleanUp_def cleanupError_def runError_def retainedError_def
      case_prod_beta split: option.splits)

lemma Run_err:
  "err (Run wr w) = (if retainedError wr w = None then err (snd (run wr w)) else retainedError wr w)"
  by (simp add: Run_def cleanerCleanUp_def cleanupError_def runError_def retainedError_def
      case_prod_beta split: option.splits)

text \<open>
  The cleaner \<open>Run\<close> calls is the collaborator's \<open>CleanUp\<close>, on the cleaner as \<open>run\<close> left
  it, after the state was set to cleaning up; \<open>Run\<close> keeps the cleaner as \<open>CleanUp\<close>
  returned it.
\<close>

lemma cleanupError_is_CleanUp:
  "cleanupError wr w = fst (CleanUp wr (Suc (now (snd (run wr w)))) (cleaner (snd (run wr w))))"
  by (simp add: cleanupError_def cleanerCleanUp_def case_prod_beta)

lemma Run_cleaner:
  "cleaner (Run wr w) = snd (CleanUp wr (Suc (now (snd (run wr w)))) (cleaner (snd (run wr w))))"
  by (simp add: Run_def cleanerCleanUp_def case_prod_beta split: option.splits)

text \<open>
  C1. Whatever \<open>run\<close> returned (no error, an error of a phase, the interrupted error),
  \<open>Run\<close> goes on with exactly these events: the state is set to cleaning up, the
  collaborator's \<open>CleanUp\<close> is called on the cleaner as \<open>run\<close> left it, the cleanup error
  is logged when \<open>run\<close> and \<open>CleanUp\<close> both failed, and the terminal state is written.
  \<open>run\<close> itself never calls the cleaner, so the whole of \<open>Run\<close> calls it exactly once.
  The final state is done exactly when \<open>run\<close> and \<open>CleanUp\<close> both returned no error, and
  error otherwise; the error kept is the one of \<open>run\<close> if it had one, else the one of
  \<open>CleanUp\<close>.
\<close>

theorem Run_cleans_up_once_and_settles:
  "trace (Run wr w) = trace (snd (run wr w)) @
     EvSetState sqlDiffCleanUp #
     EvCleanUp (fst (CleanUp wr (Suc (now (snd (run wr w)))) (cleaner (snd (run wr w))))) #
     (case fst (CleanUp wr (Suc (now (snd (run wr w)))) (cleaner (snd (run wr w)))) of
        Some c \<Rightarrow>
          (case fst (run wr w) of
             Some e \<Rightarrow> [EvErrorf ''CleanUp failed in addition to job error: %v'' [ArgError c]]
           | None \<Rightarrow> [])
      | None \<Rightarrow> []) @
     [case fst (run wr w) of
        Some e \<Rightarrow> EvRecordError (Some e)
      | None \<Rightarrow>
          (case fst (CleanUp wr (Suc (now (snd (run wr w)))) (cleaner (snd (run wr w)))) of
             Some c \<Rightarrow> EvRecordError (Some c)
           | None \<Rightarrow> EvSetState sqlDiffDone)]
   \<and> cleaner (Run wr w) = snd (CleanUp wr (Suc (now (snd (run wr w)))) (cleaner (snd (run wr w))))
   \<and> cleanups (trace (snd (run wr w))) = cleanups (trace w)
   \<and> cleanups (trace (Run wr w)) =
       cleanups (trace w) @ [fst (CleanUp wr (Suc (now (snd (run wr w)))) (cleaner (snd (run wr w))))]
   \<and> (state (Run wr w) = sqlDiffDone) =
       (fst (run wr w) = None \<and>
        fst (CleanUp wr (Suc (now (snd (run wr w)))) (cleaner (snd (run wr w)))) = None)
   \<and> state (Run wr w) =
       (if fst (run wr w) = None \<and>
           fst (CleanUp wr (Suc (now (snd (run wr w)))) (cleaner (snd (run wr w)))) = None
        then sqlDiffDone else sqlDiffError)
   \<and> err (Run wr w) =
       (case fst (run wr w) of
          Some e \<Rightarrow> Some e
        | None \<Rightarrow>
            (case fst (CleanUp wr (Suc (now (snd (run wr w)))) (cleaner (snd (run wr w)))) of
               Some c \<Rightarrow> Some c
             | None \<Rightarrow> err (snd (run wr w))))"
proof -
  let ?c = "fst (CleanUp wr (Suc (now (snd (run wr w)))) (cleaner (snd (run wr w))))"
  have c: "cleanupError wr w = ?c"
    by (rule cleanupError_is_CleanUp)
  have r: "runError wr w = fst (run wr w)"
    by (simp add: runError_def)
  have ev: "trace (Run wr w) = trace (snd (run wr w)) @
     EvSetState sqlDiffCleanUp # EvCleanUp ?c #
     (case ?c of
        Some c \<Rightarrow>
          (case fst (run wr w) of
             Some e \<Rightarrow> [EvErrorf ''CleanUp failed in addition to job error: %v'' [ArgError c]]
           | None \<Rightarrow> [])
      | None \<Rightarrow> []) @
     [case fst (run wr w) of
        Some e \<Rightarrow> EvRecordError (Some e)
      | None \<Rightarrow> (case ?c of Some c \<Rightarrow> EvRecordError (Some c) | None \<Rightarrow> EvSetState sqlDiffDone)]"
    by (simp add: Run_events retainedError_def c r split: option.splits)
  have once: "cleanups (trace (Run wr w)) = cleanups (trace w) @ [?c]"
    by (simp add: ev run_cleanups split: option.splits)
  have st: "(state (Run wr w) = sqlDiffDone) = (fst (run wr w) = None \<and> ?c = None)"
    "state (Run wr w) = (if fst (run wr w) = None \<and> ?c = None then sqlDiffDone else sqlDiffError)"
    by (auto simp add: Run_state retainedError_def c r split: option.splits)
  have er: "err (Run wr w) =
       (case fst (run wr w) of
          Some e \<Rightarrow> Some e
        | None \<Rightarrow> (case ?c of Some c \<Rightarrow> Some c | None \<Rightarrow> err (snd (run wr w))))"
    by (simp add: Run_err retainedError_def c r split: option.splits)
  from ev Run_cleaner [of wr w] run_cleanups [of wr w] once st er show ?thesis
    by (intro conjI)
qed

section \<open>The streams of the diff phase\<close>

text \<open>
  C7. The streams \<open>diff\<close> closed are the streams it opened, each once, the last opened
  closed first, on every way out: nothing is closed when the first stream could not be
  opened, the first alone when the second could not, both when the differ could not be
  built and both after the differ ran, whether it failed or not.
\<close>

theorem diff_closes_what_it_opened:
  "trace (snd (diff wr w)) = trace w @ newEvents w (snd (diff wr w)) \<and>
   closedReaders (newEvents w (snd (diff wr w))) = rev (openedReaders (newEvents w (snd (diff wr w))))"
  by (simp add: diff_def Let_def newEvents_def split: prod.splits sum.splits option.splits)

section \<open>The two renderings of the status\<close>

text \<open>
  C9. \<open>StatusAsText\<close> and \<open>StatusAsHTML\<close> are one layout of one piece of information,
  under two markups: the plain one leaves a label as it is and ends a line with a
  newline, the HTML one sets a label between \<open><b>\<close> and \<open></b>\<close> and ends a line with
  \<open></br>\<close> and a newline. Both panic in the same snapshots: the error state with no error.
\<close>

theorem status_renderings_agree:
  "StatusAsText wr w = map_option (renderStatus textMarkup) (statusInfo wr w) \<and>
   StatusAsHTML wr w = map_option (renderStatus htmlMarkup) (statusInfo wr w)"
  by (cases "state w"; cases "err w";
      simp add: StatusAsText_def StatusAsHTML_def statusInfo_def textMarkup_def htmlMarkup_def)

section \<open>The states a run goes through\<close>

lemma findTargets_stateWrites:
  "stateWrites (trace (snd (findTargets wr w))) = stateWrites (trace w) @ [sqlDiffFindTargets]"
  by (simp add: findTargets_def Let_def split: prod.splits)

lemma synchronizeReplication_stateWrites:
  "stateWrites (trace (snd (synchronizeReplication wr w))) = stateWrites (trace w) @
     (if state (snd (synchronizeReplication wr w)) = sqlDiffError
      then [sqlDiffSynchronizeReplication, sqlDiffError] else [sqlDiffSynchronizeReplication])"
  by (simp add: synchronizeReplication_def Let_def case_prod_beta checkpoint_fields
      split: sum.splits option.splits bool.splits)

lemma synchronizeReplication_state:
  "state (snd (synchronizeReplication wr w)) = sqlDiffError \<or>
   state (snd (synchronizeReplication wr w)) = sqlDiffSynchronizeReplication"
  by (simp add: synchronizeReplication_def Let_def case_prod_beta checkpoint_fields
      split: sum.splits option.splits bool.splits)

lemma synchronizeReplication_state_ok:
  "fst (synchronizeReplication wr w) = None \<longrightarrow>
   state (snd (synchronizeReplication wr w)) = sqlDiffSynchronizeReplication"
  by (simp add: synchronizeReplication_def Let_def case_prod_beta checkpoint_fields
      split: sum.splits option.splits bool.splits)

lemma diff_stateWrites:
  "stateWrites (trace (snd (diff wr w))) = stateWrites (trace w) @ [sqlDiffRunning]"
  by (simp add: diff_def Let_def split: prod.splits sum.splits option.splits)

lemma findTargets_errorWrites:
  "errorWrites (trace (snd (findTargets wr w))) = errorWrites (trace w)"
  by (simp add: findTargets_def Let_def split: prod.splits)

lemma synchronizeReplication_errorWrites:
  "errorWrites (trace (snd (synchronizeReplication wr w))) = errorWrites (trace w) @
     (if state (snd (synchronizeReplication wr w)) = sqlDiffError then [Some ErrInterrupted] else [])"
  by (simp add: synchronizeReplication_def Let_def case_prod_beta checkpoint_fields
      split: sum.splits option.splits bool.splits)

lemma diff_errorWrites:
  "errorWrites (trace (snd (diff wr w))) = errorWrites (trace w)"
  by (simp add: diff_def Let_def split: prod.splits sum.splits option.splits)

section \<open>Who writes the aliases\<close>

lemma synchronizeReplication_specs:
  "superset (snd (synchronizeReplication wr w)) = superset w"
  "subset (snd (synchronizeReplication wr w)) = subset w"
  "aliasWrites (trace (snd (synchronizeReplication wr w))) = aliasWrites (trace w)"
  by (simp_all add: synchronizeReplication_def Let_def case_prod_beta checkpoint_fields
      split: sum.splits option.splits bool.splits)

lemma diff_specs:
  "superset (snd (diff wr w)) = superset w"
  "subset (snd (diff wr w)) = subset w"
  "aliasWrites (trace (snd (diff wr w))) = aliasWrites (trace w)"
  by (simp_all add: diff_def Let_def split: prod.splits sum.splits option.splits)

lemma checkpoint_aliasWrites:
  "aliasWrites (trace (snd (checkInterrupted (concurrently wr w)))) = aliasWrites (trace w)"
  by (simp add: checkpoint_fields)

lemma run_specs:
  "superset (snd (run wr w)) = superset (snd (findTargets wr w))"
  "subset (snd (run wr w)) = subset (snd (findTargets wr w))"
  "aliasWrites (trace (snd (run wr w))) = aliasWrites (trace (snd (findTargets wr w)))"
  by (simp_all add: run_def case_prod_beta synchronizeReplication_specs diff_specs checkpoint_fields
      split: option.splits bool.splits)

lemma Run_specs:
  "superset (Run wr w) = superset (snd (run wr w))"
  "subset (Run wr w) = subset (snd (run wr w))"
  by (simp_all add: Run_def cleanerCleanUp_def case_prod_beta split: option.splits)

lemma findTargets_aliasWrites:
  "\<exists>ws. aliasWrites (trace (snd (findTargets wr w))) = aliasWrites (trace w) @ ws \<and>
     (ws = [(Superset, alias' (superset (snd (findTargets wr w))))] \<and>
        subset (snd (findTargets wr w)) = subset w
      \<or> ws = [(Superset, alias' (superset (snd (findTargets wr w)))),
              (Subset, alias' (subset (snd (findTargets wr w))))])"
  by (simp add: findTargets_def Let_def split: prod.splits)

lemma findTargets_specs:
  "superset (snd (findTargets wr w)) = (superset w)\<lparr>alias' := alias' (superset (snd (findTargets wr w)))\<rparr>"
  "subset (snd (findTargets wr w)) = (subset w)\<lparr>alias' := alias' (subset (snd (findTargets wr w)))\<rparr>"
  by (simp_all add: findTargets_def Let_def split: prod.splits)

text \<open>
  C8. \<open>synchronizeReplication\<close>, \<open>diff\<close>, \<open>Cancel\<close> and \<open>checkInterrupted\<close> leave both
  specs as they found them and write no alias; the status renderers return a text and
  no worker. After \<open>Run\<close> both specs are as \<open>findTargets\<close> left them, and the alias writes
  of the whole run are those of \<open>findTargets\<close>: the superset's alias once, then the
  subset's alias once unless the superset's discovery failed. \<open>findTargets\<close> changes
  nothing of a spec but its alias.
\<close>

theorem alias_written_by_findTargets_only:
  "superset (snd (synchronizeReplication wr w)) = superset w
   \<and> subset (snd (synchronizeReplication wr w)) = subset w
   \<and> aliasWrites (trace (snd (synchronizeReplication wr w))) = aliasWrites (trace w)
   \<and> superset (snd (diff wr w)) = superset w
   \<and> subset (snd (diff wr w)) = subset w
   \<and> aliasWrites (trace (snd (diff wr w))) = aliasWrites (trace w)
   \<and> superset (Cancel w) = superset w \<and> subset (Cancel w) = subset w \<and> trace (Cancel w) = trace w
   \<and> superset (snd (checkInterrupted w)) = superset w
   \<and> subset (snd (checkInterrupted w)) = subset w
   \<and> aliasWrites (trace (snd (checkInterrupted w))) = aliasWrites (trace w)
   \<and> superset (Run wr w) = superset (snd (findTargets wr w))
   \<and> subset (Run wr w) = subset (snd (findTargets wr w))
   \<and> aliasWrites (trace (Run wr w)) = aliasWrites (trace (snd (findTargets wr w)))
   \<and> (\<exists>ws. aliasWrites (trace (snd (findTargets wr w))) = aliasWrites (trace w) @ ws \<and>
        (ws = [(Superset, alias' (superset (snd (findTargets wr w))))] \<and>
           subset (snd (findTargets wr w)) = subset w
         \<or> ws = [(Superset, alias' (superset (snd (findTargets wr w)))),
                 (Subset, alias' (subset (snd (findTargets wr w))))]))
   \<and> superset (snd (findTargets wr w)) = (superset w)\<lparr>alias' := alias' (superset (snd (findTargets wr w)))\<rparr>
   \<and> subset (snd (findTargets wr w)) = (subset w)\<lparr>alias' := alias' (subset (snd (findTargets wr w)))\<rparr>"
proof -
  have cancel: "superset (Cancel w) = superset w \<and> subset (Cancel w) = subset w \<and> trace (Cancel w) = trace w"
    by (simp add: Cancel_def)
  have check: "superset (snd (checkInterrupted w)) = superset w
     \<and> subset (snd (checkInterrupted w)) = subset w
     \<and> aliasWrites (trace (snd (checkInterrupted w))) = aliasWrites (trace w)"
    by (simp add: checkInterrupted_def split: ctxState.splits)
  have Run_aliases: "aliasWrites (trace (Run wr w)) = aliasWrites (trace (snd (findTargets wr w)))"
    by (simp add: Run_events run_specs split: option.splits)
  have Run_sup: "superset (Run wr w) = superset (snd (findTargets wr w))"
    by (simp add: Run_specs run_specs)
  have Run_sub: "subset (Run wr w) = subset (snd (findTargets wr w))"
    by (simp add: Run_specs run_specs)
  show ?thesis
    using synchronizeReplication_specs [of wr w] diff_specs [of wr w] cancel check
      Run_sup Run_sub Run_aliases findTargets_aliasWrites [of wr w] findTargets_specs [of wr w]
    by (intro conjI) blast+
qed

section \<open>Cancelled before the run\<close>

lemma findTargets_ctx: "ctx (snd (findTargets wr w)) = ctx w"
  by (simp add: findTargets_def Let_def split: prod.splits)

lemma findTargets_stopSlaves:
  "stopSlaves (trace (snd (findTargets wr w))) = stopSlaves (trace w)"
  by (simp add: findTargets_def Let_def split: prod.splits)

lemma cancelled_checkpoint:
  "ctx w = ctxCanceled \<Longrightarrow>
   checkInterrupted (concurrently wr w) = (True, recordError (Some ErrInterrupted) w)"
  by (cases w) (simp add: checkInterrupted_def concurrently_def Cancel_def)

lemma run_cancelled:
  "ctx w = ctxCanceled \<Longrightarrow>
   run wr w = (case fst (findTargets wr w) of
                 Some e \<Rightarrow> (Some e, snd (findTargets wr w))
               | None \<Rightarrow> (Some ErrInterrupted, recordError (Some ErrInterrupted) (snd (findTargets wr w))))"
  by (simp add: run_def case_prod_beta cancelled_checkpoint findTargets_ctx split: option.splits)

lemma findTargets_calls_findChecker:
  "EvFindChecker (cell w) (Keyspace (superset w)) (Shard (superset w))
     (fst (snd (findChecker wr (Suc (now w)) (cleaner w) (cell w) (Keyspace (superset w))
                  (Shard (superset w)))))
     \<in> set (trace (snd (findTargets wr w)))"
  by (simp add: findTargets_def Let_def case_prod_beta)

text \<open>
  C6, amended. When \<open>Cancel\<close> was called on a live worker before \<open>Run\<close>, the run still
  starts with the discovery (there is no checkpoint before it): \<open>findChecker\<close> is called,
  and the cleaner is called once at the end. The run ends in the error state. If the
  discovery succeeded, the checkpoint of line 187 stops the run and the error is the
  interrupted error; if the discovery failed, its error is returned as it is and that
  is the error kept. In both cases \<open>run\<close> does nothing beyond the discovery and the
  record of the interruption: the synchronization and the diff never start, and
  \<open>StopSlave\<close> is never called.
\<close>

theorem cancelled_before_run:
  "ctx w = ctxActive \<Longrightarrow>
   state (Run wr (Cancel w)) = sqlDiffError
   \<and> err (Run wr (Cancel w)) =
       Some (case fst (findTargets wr (Cancel w)) of Some e \<Rightarrow> e | None \<Rightarrow> ErrInterrupted)
   \<and> trace (snd (run wr (Cancel w))) = trace (snd (findTargets wr (Cancel w))) @
       (case fst (findTargets wr (Cancel w)) of
          Some e \<Rightarrow> [] | None \<Rightarrow> [EvRecordError (Some ErrInterrupted)])
   \<and> (\<exists>e. EvFindChecker (cell w) (Keyspace (superset w)) (Shard (superset w)) e
            \<in> set (trace (Run wr (Cancel w))))
   \<and> cleanups (trace (Run wr (Cancel w))) = cleanups (trace w) @ [cleanupError wr (Cancel w)]
   \<and> stopSlaves (trace (Run wr (Cancel w))) = stopSlaves (trace w)
   \<and> stateWrites (trace (Run wr (Cancel w))) = stateWrites (trace w) @
       sqlDiffFindTargets #
       (case fst (findTargets wr (Cancel w)) of Some e \<Rightarrow> [] | None \<Rightarrow> [sqlDiffError]) @
       [sqlDiffCleanUp, sqlDiffError]"
proof -
  assume "ctx w = ctxActive"
  then have c: "ctx (Cancel w) = ctxCanceled" and t: "trace (Cancel w) = trace w"
    and f: "cell (Cancel w) = cell w" "superset (Cancel w) = superset w"
    by (simp_all add: Cancel_def)
  have r: "runError wr (Cancel w) =
      Some (case fst (findTargets wr (Cancel w)) of Some e \<Rightarrow> e | None \<Rightarrow> ErrInterrupted)"
    by (simp add: runError_def run_cancelled [OF c] split: option.splits)
  then have k: "retainedError wr (Cancel w) =
      Some (case fst (findTargets wr (Cancel w)) of Some e \<Rightarrow> e | None \<Rightarrow> ErrInterrupted)"
    by (simp add: retainedError_def)
  have tr: "trace (snd (run wr (Cancel w))) = trace (snd (findTargets wr (Cancel w))) @
       (case fst (findTargets wr (Cancel w)) of
          Some e \<Rightarrow> [] | None \<Rightarrow> [EvRecordError (Some ErrInterrupted)])"
    by (simp add: run_cancelled [OF c] split: option.splits)
  obtain e where "EvFindChecker (cell w) (Keyspace (superset w)) (Shard (superset w)) e
      \<in> set (trace (snd (findTargets wr (Cancel w))))"
    using findTargets_calls_findChecker [of "Cancel w" wr] f by auto
  then have fc: "\<exists>e. EvFindChecker (cell w) (Keyspace (superset w)) (Shard (superset w)) e
            \<in> set (trace (Run wr (Cancel w)))"
    by (auto simp add: Run_events tr)
  have cl: "cleanups (trace (Run wr (Cancel w))) = cleanups (trace w) @ [cleanupError wr (Cancel w)]"
    by (simp add: Run_events run_cleanups t split: option.splits)
  have s: "stopSlaves (trace (snd (run wr (Cancel w)))) = stopSlaves (trace w)"
    by (simp add: tr findTargets_stopSlaves t split: option.splits)
  have ws: "stateWrites (trace (snd (run wr (Cancel w)))) = stateWrites (trace w) @
       sqlDiffFindTargets #
       (case fst (findTargets wr (Cancel w)) of Some e \<Rightarrow> [] | None \<Rightarrow> [sqlDiffError])"
    by (simp add: tr findTargets_stateWrites t split: option.splits)
  have rest: "state (Run wr (Cancel w)) = sqlDiffError
   \<and> err (Run wr (Cancel w)) =
       Some (case fst (findTargets wr (Cancel w)) of Some e \<Rightarrow> e | None \<Rightarrow> ErrInterrupted)
   \<and> stopSlaves (trace (Run wr (Cancel w))) = stopSlaves (trace w)
   \<and> stateWrites (trace (Run wr (Cancel w))) = stateWrites (trace w) @
       sqlDiffFindTargets #
       (case fst (findTargets wr (Cancel w)) of Some e \<Rightarrow> [] | None \<Rightarrow> [sqlDiffError]) @
       [sqlDiffCleanUp, sqlDiffError]"
    by (simp add: Run_state Run_err Run_events k s ws split: option.splits)
  from rest tr fc cl show ?thesis by blast
qed

theorem cancelled_before_run_witness:
  "ctx exampleWorker = ctxActive
   \<and> state (Run exampleWrangler (Cancel exampleWorker)) = sqlDiffError
   \<and> err (Run exampleWrangler (Cancel exampleWorker)) = Some ErrInterrupted
   \<and> stopSlaves (trace (Run exampleWrangler (Cancel exampleWorker))) = []"
proof -
  have h: "ctx exampleWorker = ctxActive"
    by (simp add: example_defs)
  have f: "fst (findTargets exampleWrangler (Cancel exampleWorker)) = None"
    by (simp add: findTargets_def Cancel_def Let_def example_defs)
  have t: "trace exampleWorker = []"
    by (simp add: example_defs)
  show ?thesis
    using cancelled_before_run [OF h, of exampleWrangler] h f t by simp
qed

text \<open>
  C6, as the claim has it, fails: \<open>Cancel\<close> is called before \<open>Run\<close> and no replica is
  found for the superset. The run ends in the error state with the error of the
  discovery, not with the interrupted error.
\<close>

theorem cancelled_before_run_keeps_discovery_error:
  "state (Run noReplicaWrangler (Cancel exampleWorker)) = sqlDiffError
   \<and> err (Run noReplicaWrangler (Cancel exampleWorker)) = Some (ExternalError ''no replica'')
   \<and> err (Run noReplicaWrangler (Cancel exampleWorker)) \<noteq> Some ErrInterrupted"
  by (simp add: unfold_all noReplicaWrangler_def example_defs)

section \<open>Runs that see no cancellation\<close>

lemma neverCancelled_simps [simp]:
  "neverCancelled wr (emit e w) = neverCancelled wr w"
  "neverCancelled wr (setState s w) = neverCancelled wr w"
  "neverCancelled wr (recordError x w) = neverCancelled wr w"
  "neverCancelled wr (w\<lparr>cleaner := c\<rparr>) = neverCancelled wr w"
  by (simp_all add: neverCancelled_def)

lemma neverCancelled_checkpoint:
  "neverCancelled wr w \<Longrightarrow> checkInterrupted (concurrently wr w) = (False, w)"
  by (cases w) (auto simp add: neverCancelled_def checkInterrupted_def concurrently_def Cancel_def)

lemma neverCancelled_findTargets:
  "neverCancelled wr (snd (findTargets wr w)) = neverCancelled wr w"
  by (simp add: neverCancelled_def findTargets_ctx)

lemma neverCancelled_synchronizeReplication:
  "neverCancelled wr w \<Longrightarrow> neverCancelled wr (snd (synchronizeReplication wr w))"
  by (simp add: synchronizeReplication_def Let_def neverCancelled_checkpoint
      split: sum.splits option.splits)

lemma run_neverCancelled:
  "neverCancelled wr w \<Longrightarrow>
   run wr w =
     (case findTargets wr w of
        (Some e, w1) \<Rightarrow> (Some e, w1)
      | (None, w1) \<Rightarrow>
          (case synchronizeReplication wr w1 of
             (Some e, w2) \<Rightarrow> (Some e, w2)
           | (None, w2) \<Rightarrow> diff wr w2))"
  by (simp add: run_def case_prod_beta neverCancelled_checkpoint neverCancelled_findTargets
      neverCancelled_synchronizeReplication prod_eq_iff split: option.splits)

lemma synchronizeReplication_errorWrites_neverCancelled:
  "neverCancelled wr w \<Longrightarrow>
   errorWrites (trace (snd (synchronizeReplication wr w))) = errorWrites (trace w)"
  by (simp add: synchronizeReplication_def Let_def neverCancelled_checkpoint
      split: sum.splits option.splits)

lemma run_errorWrites_neverCancelled:
  "neverCancelled wr w \<Longrightarrow> errorWrites (trace (snd (run wr w))) = errorWrites (trace w)"
  by (simp add: run_neverCancelled case_prod_beta findTargets_errorWrites diff_errorWrites
      synchronizeReplication_errorWrites_neverCancelled neverCancelled_findTargets
      split: option.splits)

section \<open>The order of the states\<close>

text \<open>
  A checkpoint reports an interruption exactly when it leaves the context cancelled, and
  a cancelled context stays cancelled.
\<close>

lemma checkpoint_ctx:
  "fst (checkInterrupted (concurrently wr w)) =
     (ctx (snd (checkInterrupted (concurrently wr w))) = ctxCanceled)"
  by (simp add: checkInterrupted_def concurrently_def Cancel_def split: ctxState.splits)

lemma checkpoint_ctx_keeps:
  "ctx w = ctxCanceled \<Longrightarrow> ctx (snd (checkInterrupted (concurrently wr w))) = ctxCanceled"
  by (simp add: cancelled_checkpoint)

lemma diff_ctx: "ctx (snd (diff wr w)) = ctx w"
  by (simp add: diff_def Let_def split: prod.splits sum.splits option.splits)

lemma synchronizeReplication_ctx_error:
  "state (snd (synchronizeReplication wr w)) = sqlDiffError \<longrightarrow>
   ctx (snd (synchronizeReplication wr w)) = ctxCanceled"
  using checkpoint_ctx
  by (simp add: synchronizeReplication_def Let_def case_prod_beta checkpoint_fields
      split: sum.splits option.splits bool.splits)

lemma Run_ctx: "ctx (Run wr w) = ctx (snd (run wr w))"
  by (simp add: Run_def cleanerCleanUp_def case_prod_beta split: option.splits)

text \<open>
  The six ways the states can have been written when \<open>run\<close> returns. Each write of the
  error state among them is a record of the interrupted error, and there is one only
  if the context is cancelled.
\<close>

lemma run_writes:
  "\<exists>pre. stateWrites (trace (snd (run wr w))) = stateWrites (trace w) @ pre \<and>
     pre \<in> {[sqlDiffFindTargets],
            [sqlDiffFindTargets, sqlDiffError],
            [sqlDiffFindTargets, sqlDiffSynchronizeReplication],
            [sqlDiffFindTargets, sqlDiffSynchronizeReplication, sqlDiffError],
            [sqlDiffFindTargets, sqlDiffSynchronizeReplication, sqlDiffError, sqlDiffError],
            [sqlDiffFindTargets, sqlDiffSynchronizeReplication, sqlDiffRunning]} \<and>
     errorWrites (trace (snd (run wr w))) =
       errorWrites (trace w) @ replicate (count_list pre sqlDiffError) (Some ErrInterrupted) \<and>
     (sqlDiffError \<in> set pre \<longrightarrow> ctx (snd (run wr w)) = ctxCanceled)"
  using synchronizeReplication_state
      [of wr "snd (checkInterrupted (concurrently wr (snd (findTargets wr w))))"]
    synchronizeReplication_state_ok
      [of wr "snd (checkInterrupted (concurrently wr (snd (findTargets wr w))))"]
    synchronizeReplication_ctx_error
      [of wr "snd (checkInterrupted (concurrently wr (snd (findTargets wr w))))"]
    checkpoint_ctx [of wr "snd (findTargets wr w)"]
    checkpoint_ctx [of wr "snd (synchronizeReplication wr
       (snd (checkInterrupted (concurrently wr (snd (findTargets wr w))))))"]
  by (auto simp add: run_def case_prod_beta findTargets_stateWrites
      synchronizeReplication_stateWrites diff_stateWrites checkpoint_fields
      findTargets_errorWrites synchronizeReplication_errorWrites diff_errorWrites
      checkpoint_ctx_keeps
      split: option.splits bool.splits)

lemma phaseWrites_eq:
  "stateWrites (trace (snd (run wr w))) = stateWrites (trace w) @ pre \<Longrightarrow> phaseWrites wr w = pre"
  by (simp add: phaseWrites_def)

text \<open>
  C3, as the claim has it, fails: \<open>Cancel\<close> is called before \<open>Run\<close> and discovery succeeds.
  The checkpoint of line 187 records the interruption, which writes the error state, and
  \<open>Run\<close> then writes cleaning up over it (line 162): the state goes from error back to
  cleaning up, and the error state is written twice.
\<close>

theorem state_goes_back_after_cancel:
  "stateWrites (trace (Run exampleWrangler (Cancel exampleWorker))) =
     [sqlDiffFindTargets, sqlDiffError, sqlDiffCleanUp, sqlDiffError] \<and>
   \<not> successively notBackward
       (sqlDiffNotSarted # stateWrites (trace (Run exampleWrangler (Cancel exampleWorker))))"
proof -
  have "stateWrites (trace (Run exampleWrangler (Cancel exampleWorker))) =
     [sqlDiffFindTargets, sqlDiffError, sqlDiffCleanUp, sqlDiffError]"
    by (simp add: Run_def run_def findTargets_def cleanerCleanUp_def checkInterrupted_def
        concurrently_def Cancel_def exampleWrangler_def exampleWorker_def NewSQLDiffWorker_def
        exampleSpec_def Let_def)
  then show ?thesis by (simp add: notBackward_def)
qed

text \<open>
  C3, amended. The states written while \<open>run\<close> is at work are one of six sequences:
  finding targets; then possibly synchronizing replication; then possibly running; and,
  after finding targets or after synchronizing replication, the error state once or
  (after synchronizing replication) twice. Each of these writes of the error state is a
  record of the interrupted error by \<open>checkInterrupted\<close>; there is one only if the
  context of the worker is cancelled, and none in a run that sees no cancellation.
  \<open>Run\<close> then writes cleaning up and one terminal state, done or error, which is the
  final state. Every step moves forward in the order of the specification except the
  steps out of an error state that a checkpoint recorded (to the error state again, or
  to cleaning up); when no checkpoint recorded an error every step moves forward. A
  final error state has an error with it, and every write of the error state carries
  an error.
\<close>

theorem states_of_a_run:
  "stateWrites (trace (snd (run wr w))) = stateWrites (trace w) @ phaseWrites wr w
   \<and> stateWrites (trace (Run wr w)) =
       stateWrites (trace w) @ phaseWrites wr w @ [sqlDiffCleanUp, state (Run wr w)]
   \<and> phaseWrites wr w \<in>
       {[sqlDiffFindTargets],
        [sqlDiffFindTargets, sqlDiffError],
        [sqlDiffFindTargets, sqlDiffSynchronizeReplication],
        [sqlDiffFindTargets, sqlDiffSynchronizeReplication, sqlDiffError],
        [sqlDiffFindTargets, sqlDiffSynchronizeReplication, sqlDiffError, sqlDiffError],
        [sqlDiffFindTargets, sqlDiffSynchronizeReplication, sqlDiffRunning]}
   \<and> errorWrites (trace (snd (run wr w))) =
       errorWrites (trace w) @
       replicate (count_list (phaseWrites wr w) sqlDiffError) (Some ErrInterrupted)
   \<and> (sqlDiffError \<in> set (phaseWrites wr w) \<longrightarrow> ctx (Run wr w) = ctxCanceled)
   \<and> (neverCancelled wr w \<longrightarrow> sqlDiffError \<notin> set (phaseWrites wr w))
   \<and> successively stepOfRun
       (sqlDiffNotSarted # phaseWrites wr w @ [sqlDiffCleanUp, state (Run wr w)])
   \<and> (sqlDiffError \<in> set (phaseWrites wr w) \<or>
       successively movesForward
         (sqlDiffNotSarted # phaseWrites wr w @ [sqlDiffCleanUp, state (Run wr w)]))
   \<and> (state (Run wr w) = sqlDiffDone \<or> state (Run wr w) = sqlDiffError \<and> err (Run wr w) \<noteq> None)
   \<and> (\<exists>es. errorWrites (trace (Run wr w)) = errorWrites (trace w) @ es \<and> None \<notin> set es)"
proof -
  obtain pre where pre: "stateWrites (trace (snd (run wr w))) = stateWrites (trace w) @ pre"
    and shape: "pre \<in> {[sqlDiffFindTargets],
            [sqlDiffFindTargets, sqlDiffError],
            [sqlDiffFindTargets, sqlDiffSynchronizeReplication],
            [sqlDiffFindTargets, sqlDiffSynchronizeReplication, sqlDiffError],
            [sqlDiffFindTargets, sqlDiffSynchronizeReplication, sqlDiffError, sqlDiffError],
            [sqlDiffFindTargets, sqlDiffSynchronizeReplication, sqlDiffRunning]}"
    and errs: "errorWrites (trace (snd (run wr w))) =
       errorWrites (trace w) @ replicate (count_list pre sqlDiffError) (Some ErrInterrupted)"
    and cancelled: "sqlDiffError \<in> set pre \<longrightarrow> ctx (snd (run wr w)) = ctxCanceled"
    using run_writes by blast
  have p: "phaseWrites wr w = pre"
    using pre by (rule phaseWrites_eq)
  have fin: "state (Run wr w) = sqlDiffDone \<or> state (Run wr w) = sqlDiffError \<and> err (Run wr w) \<noteq> None"
    by (simp add: Run_state Run_err)
  have all: "stateWrites (trace (Run wr w)) = stateWrites (trace w) @ pre @ [sqlDiffCleanUp, state (Run wr w)]"
    by (simp add: Run_events pre Run_state split: option.splits)
  have quiet: "neverCancelled wr w \<longrightarrow> sqlDiffError \<notin> set pre"
  proof
    assume "neverCancelled wr w"
    then have "errorWrites (trace (snd (run wr w))) = errorWrites (trace w)"
      by (rule run_errorWrites_neverCancelled)
    with errs have "count_list pre sqlDiffError = 0"
      by simp
    then show "sqlDiffError \<notin> set pre"
      by (simp add: count_list_0_iff)
  qed
  from shape fin
  have steps: "successively stepOfRun (sqlDiffNotSarted # pre @ [sqlDiffCleanUp, state (Run wr w)])
      \<and> (sqlDiffError \<in> set pre \<or>
           successively movesForward (sqlDiffNotSarted # pre @ [sqlDiffCleanUp, state (Run wr w)]))"
    by (auto simp add: stepOfRun_def movesForward_def)
  have "errorWrites (trace (Run wr w)) =
      errorWrites (trace w) @ replicate (count_list pre sqlDiffError) (Some ErrInterrupted) @
      (case retainedError wr w of None \<Rightarrow> [] | Some e \<Rightarrow> [Some e])"
    by (simp add: Run_events errs split: option.splits)
  moreover
  have "None \<notin> set (replicate (count_list pre sqlDiffError) (Some ErrInterrupted) @
      (case retainedError wr w of None \<Rightarrow> [] | Some e \<Rightarrow> [Some e]))"
    by (auto split: option.splits)
  ultimately
  have recorded: "\<exists>es. errorWrites (trace (Run wr w)) = errorWrites (trace w) @ es \<and> None \<notin> set es"
    by blast
  from pre all shape errs cancelled quiet steps fin recorded show ?thesis
    unfolding p Run_ctx by (intro conjI) blast+
qed

lemma cancelled_example_writes:
  "phaseWrites exampleWrangler (Cancel exampleWorker) = [sqlDiffFindTargets, sqlDiffError]"
  by (simp add: phaseWrites_def run_def findTargets_def checkInterrupted_def concurrently_def
      Cancel_def Let_def example_defs)

theorem states_of_a_run_witness:
  "sqlDiffError \<in> set (phaseWrites exampleWrangler (Cancel exampleWorker))
   \<and> ctx (Run exampleWrangler (Cancel exampleWorker)) = ctxCanceled
   \<and> neverCancelled exampleWrangler exampleWorker
   \<and> sqlDiffError \<notin> set (phaseWrites exampleWrangler exampleWorker)"
proof -
  have a: "sqlDiffError \<in> set (phaseWrites exampleWrangler (Cancel exampleWorker))"
    by (simp add: cancelled_example_writes)
  have b: "neverCancelled exampleWrangler exampleWorker"
    by (simp add: neverCancelled_def example_defs)
  from states_of_a_run [of exampleWrangler "Cancel exampleWorker"] a
  have c: "ctx (Run exampleWrangler (Cancel exampleWorker)) = ctxCanceled"
    by blast
  from states_of_a_run [of exampleWrangler exampleWorker] b
  have d: "sqlDiffError \<notin> set (phaseWrites exampleWrangler exampleWorker)"
    by blast
  from a b c d show ?thesis by blast
qed

section \<open>Cancellation, timeouts and the errors of collaborators\<close>

lemma failed_halt_is_returned:
  "(n, i, Some e) \<in> set (stopSlaves (newEvents w (snd (synchronizeReplication wr w)))) \<longrightarrow>
   fst (synchronizeReplication wr w) = Some (Errorf ''Cannot stop slave %v: %v'' (alias' (subset w)) e) \<or>
   fst (synchronizeReplication wr w) = Some (Errorf ''Cannot stop slave %v: %v'' (alias' (superset w)) e)"
  by (simp add: synchronizeReplication_def Let_def case_prod_beta checkpoint_fields newEvents_def
      split: sum.splits option.splits bool.splits)

lemma findTargets_passedErrors:
  "passedErrors (trace (snd (findTargets wr w))) =
     passedErrors (trace w) @ (case fst (findTargets wr w) of None \<Rightarrow> [] | Some e \<Rightarrow> [e])"
  by (simp add: findTargets_def Let_def split: prod.splits option.splits)

lemma diff_passedErrors:
  "passedErrors (trace (snd (diff wr w))) =
     passedErrors (trace w) @ (case fst (diff wr w) of None \<Rightarrow> [] | Some e \<Rightarrow> [e])"
  by (simp add: diff_def Let_def split: prod.splits sum.splits option.splits)

lemma synchronizeReplication_passedErrors:
  "neverCancelled wr w \<Longrightarrow>
   \<exists>es. passedErrors (trace (snd (synchronizeReplication wr w))) = passedErrors (trace w) @ es \<and>
     (case fst (synchronizeReplication wr w) of
        None \<Rightarrow> es = []
      | Some e \<Rightarrow> es = [e] \<or> es = [] \<and> (\<exists>f a c. e = Errorf f a c))"
  by (simp add: synchronizeReplication_def Let_def neverCancelled_checkpoint
      FindChangeSlaveTypeActionByTarget_def split: sum.splits option.splits)

lemma run_passedErrors:
  assumes nc: "neverCancelled wr w"
  shows "\<exists>es. passedErrors (trace (snd (run wr w))) = passedErrors (trace w) @ es \<and>
     (case fst (run wr w) of
        None \<Rightarrow> es = []
      | Some e \<Rightarrow> es = [e] \<or> es = [] \<and> (\<exists>f a c. e = Errorf f a c))"
proof (cases "fst (findTargets wr w)")
  case (Some e)
  then show ?thesis
    by (simp add: run_neverCancelled [OF nc] case_prod_beta findTargets_passedErrors)
next
  case None
  have nc1: "neverCancelled wr (snd (findTargets wr w))"
    using nc by (simp add: neverCancelled_findTargets)
  obtain es where es: "passedErrors (trace (snd (synchronizeReplication wr (snd (findTargets wr w))))) =
      passedErrors (trace (snd (findTargets wr w))) @ es"
    and shape: "case fst (synchronizeReplication wr (snd (findTargets wr w))) of
        None \<Rightarrow> es = []
      | Some e \<Rightarrow> es = [e] \<or> es = [] \<and> (\<exists>f a c. e = Errorf f a c)"
    using synchronizeReplication_passedErrors [OF nc1] by blast
  show ?thesis
  proof (cases "fst (synchronizeReplication wr (snd (findTargets wr w)))")
    case (Some e)
    with None es shape show ?thesis
      by (simp add: run_neverCancelled [OF nc] case_prod_beta findTargets_passedErrors)
  next
    case sync_ok: None
    with None es shape show ?thesis
      by (simp add: run_neverCancelled [OF nc] case_prod_beta findTargets_passedErrors
          diff_passedErrors split: option.splits)
  qed
qed

text \<open>
  C5, as the claim has it, fails: nobody cancels the worker and \<open>GetTablet\<close> returns the
  interrupted error. No checkpoint records anything and the context stays live, yet
  \<open>synchronizeReplication\<close> returns that error as it is (lines 244-246), \<open>run\<close> returns
  it, the diff does not start, and \<open>Run\<close> ends in the error state with the interrupted
  error.
\<close>

theorem collaborator_returns_interrupted:
  "neverCancelled interruptedTopoWrangler exampleWorker
   \<and> ctx (Run interruptedTopoWrangler exampleWorker) = ctxActive
   \<and> errorWrites (trace (snd (run interruptedTopoWrangler exampleWorker))) = []
   \<and> runError interruptedTopoWrangler exampleWorker = Some ErrInterrupted
   \<and> stateWrites (trace (Run interruptedTopoWrangler exampleWorker)) =
       [sqlDiffFindTargets, sqlDiffSynchronizeReplication, sqlDiffCleanUp, sqlDiffError]
   \<and> state (Run interruptedTopoWrangler exampleWorker) = sqlDiffError
   \<and> err (Run interruptedTopoWrangler exampleWorker) = Some ErrInterrupted"
  by (simp add: neverCancelled_def runError_def unfold_all interruptedTopoWrangler_def example_defs)

text \<open>
  C5, amended. \<open>checkInterrupted\<close> reports an interruption, and records the interrupted
  error, exactly when the context is cancelled; on a context that is done by its
  deadline it reports none and changes nothing. Whatever the run, the errors recorded
  while \<open>run\<close> is at work are records of the interrupted error, and there is one only if
  the context of the worker is cancelled. In a run that sees no cancellation, \<open>run\<close> is
  the three phases one after the other, no error is recorded before \<open>run\<close> returns, and
  the error \<open>run\<close> returns is either the one error a collaborator returned and the phase
  handed on as it is, or a fresh error of \<open>fmt.Errorf\<close>: it is the interrupted error only
  if a collaborator returned that very error. In such a run a \<open>StopSlave\<close> that fails (a
  timeout is such a failure) comes out of \<open>run\<close> as the error of line 251 or 282 around
  the failure, which is not the interrupted error, and \<open>Run\<close> ends in the error state
  with it.
\<close>

theorem interruption_only_at_checkpoints:
  "checkInterrupted w0 =
     (if ctx w0 = ctxCanceled then (True, recordError (Some ErrInterrupted) w0) else (False, w0))
   \<and> checkInterrupted (w0\<lparr>ctx := ctxDeadlineExceeded\<rparr>) = (False, w0\<lparr>ctx := ctxDeadlineExceeded\<rparr>)
   \<and> (\<exists>n. errorWrites (trace (snd (run wr w))) =
            errorWrites (trace w) @ replicate n (Some ErrInterrupted)
          \<and> (n = 0 \<or> ctx (snd (run wr w)) = ctxCanceled))
   \<and> (neverCancelled wr w \<longrightarrow>
        run wr w =
          (case findTargets wr w of
             (Some e, w1) \<Rightarrow> (Some e, w1)
           | (None, w1) \<Rightarrow>
               (case synchronizeReplication wr w1 of
                  (Some e, w2) \<Rightarrow> (Some e, w2)
                | (None, w2) \<Rightarrow> diff wr w2))
        \<and> errorWrites (trace (snd (run wr w))) = errorWrites (trace w)
        \<and> (\<exists>es. passedErrors (trace (snd (run wr w))) = passedErrors (trace w) @ es \<and>
              (case fst (run wr w) of
                 None \<Rightarrow> es = []
               | Some e \<Rightarrow> es = [e] \<or> es = [] \<and> (\<exists>f a c. e = Errorf f a c))))
   \<and> (neverCancelled wr w \<and> fst (findTargets wr w) = None \<and>
       (n, i, Some e) \<in> set (stopSlaves (newEvents (snd (findTargets wr w))
                                  (snd (synchronizeReplication wr (snd (findTargets wr w)))))) \<longrightarrow>
        (\<exists>a. runError wr w = Some (Errorf ''Cannot stop slave %v: %v'' a e)
            \<and> err (Run wr w) = Some (Errorf ''Cannot stop slave %v: %v'' a e))
        \<and> runError wr w \<noteq> Some ErrInterrupted
        \<and> err (Run wr w) \<noteq> Some ErrInterrupted
        \<and> state (Run wr w) = sqlDiffError)"
proof -
  have a: "checkInterrupted w0 =
     (if ctx w0 = ctxCanceled then (True, recordError (Some ErrInterrupted) w0) else (False, w0))"
    by (simp add: checkInterrupted_def split: ctxState.splits)
  have b: "checkInterrupted (w0\<lparr>ctx := ctxDeadlineExceeded\<rparr>) = (False, w0\<lparr>ctx := ctxDeadlineExceeded\<rparr>)"
    by (simp add: checkInterrupted_def)
  obtain pre where errs: "errorWrites (trace (snd (run wr w))) =
       errorWrites (trace w) @ replicate (count_list pre sqlDiffError) (Some ErrInterrupted)"
    and cancelled: "sqlDiffError \<in> set pre \<longrightarrow> ctx (snd (run wr w)) = ctxCanceled"
    using run_writes [of wr w] by blast
  have "count_list pre sqlDiffError = 0 \<or> ctx (snd (run wr w)) = ctxCanceled"
    using cancelled by (auto simp add: count_list_0_iff)
  with errs
  have r: "\<exists>n. errorWrites (trace (snd (run wr w))) =
            errorWrites (trace w) @ replicate n (Some ErrInterrupted)
          \<and> (n = 0 \<or> ctx (snd (run wr w)) = ctxCanceled)"
    by blast
  have c: "neverCancelled wr w \<longrightarrow>
        run wr w =
          (case findTargets wr w of
             (Some e, w1) \<Rightarrow> (Some e, w1)
           | (None, w1) \<Rightarrow>
               (case synchronizeReplication wr w1 of
                  (Some e, w2) \<Rightarrow> (Some e, w2)
                | (None, w2) \<Rightarrow> diff wr w2))
        \<and> errorWrites (trace (snd (run wr w))) = errorWrites (trace w)
        \<and> (\<exists>es. passedErrors (trace (snd (run wr w))) = passedErrors (trace w) @ es \<and>
              (case fst (run wr w) of
                 None \<Rightarrow> es = []
               | Some e \<Rightarrow> es = [e] \<or> es = [] \<and> (\<exists>f a c. e = Errorf f a c)))"
    using run_neverCancelled [of wr w] run_errorWrites_neverCancelled [of wr w]
      run_passedErrors [of wr w] by blast
  have d: "(\<exists>a. runError wr w = Some (Errorf ''Cannot stop slave %v: %v'' a e)
            \<and> err (Run wr w) = Some (Errorf ''Cannot stop slave %v: %v'' a e))
        \<and> runError wr w \<noteq> Some ErrInterrupted
        \<and> err (Run wr w) \<noteq> Some ErrInterrupted
        \<and> state (Run wr w) = sqlDiffError"
    if nc: "neverCancelled wr w" and ft: "fst (findTargets wr w) = None"
      and halt: "(n, i, Some e) \<in> set (stopSlaves (newEvents (snd (findTargets wr w))
                                  (snd (synchronizeReplication wr (snd (findTargets wr w))))))"
  proof -
    from halt failed_halt_is_returned [of n i e "snd (findTargets wr w)" wr]
    obtain a where s: "fst (synchronizeReplication wr (snd (findTargets wr w))) =
        Some (Errorf ''Cannot stop slave %v: %v'' a e)"
      by blast
    have r: "runError wr w = Some (Errorf ''Cannot stop slave %v: %v'' a e)"
      using ft s by (simp add: runError_def run_neverCancelled [OF nc] case_prod_beta)
    then have k: "retainedError wr w = Some (Errorf ''Cannot stop slave %v: %v'' a e)"
      by (simp add: retainedError_def)
    show ?thesis
      using r k by (simp add: Run_state Run_err)
  qed
  from a b r c d show ?thesis by blast
qed

theorem interruption_only_at_checkpoints_witness:
  "neverCancelled haltTimesOutWrangler exampleWorker
   \<and> fst (findTargets haltTimesOutWrangler exampleWorker) = None
   \<and> (60, TabletInfo (TabletAlias ''c1'' 5), Some (ExternalError ''deadline exceeded''))
       \<in> set (stopSlaves (newEvents (snd (findTargets haltTimesOutWrangler exampleWorker))
            (snd (synchronizeReplication haltTimesOutWrangler
                   (snd (findTargets haltTimesOutWrangler exampleWorker))))))
   \<and> (\<exists>a. runError haltTimesOutWrangler exampleWorker =
            Some (Errorf ''Cannot stop slave %v: %v'' a (ExternalError ''deadline exceeded''))
          \<and> err (Run haltTimesOutWrangler exampleWorker) =
            Some (Errorf ''Cannot stop slave %v: %v'' a (ExternalError ''deadline exceeded'')))
   \<and> runError haltTimesOutWrangler exampleWorker \<noteq> Some ErrInterrupted
   \<and> err (Run haltTimesOutWrangler exampleWorker) \<noteq> Some ErrInterrupted
   \<and> state (Run haltTimesOutWrangler exampleWorker) = sqlDiffError
   \<and> errorWrites (trace (snd (run haltTimesOutWrangler exampleWorker))) = []
   \<and> passedErrors (trace (snd (run haltTimesOutWrangler exampleWorker))) = []"
proof -
  have nc: "neverCancelled haltTimesOutWrangler exampleWorker"
    by (simp add: neverCancelled_def haltTimesOutWrangler_def example_defs)
  have ft: "fst (findTargets haltTimesOutWrangler exampleWorker) = None"
    by (simp add: findTargets_def Let_def haltTimesOutWrangler_def example_defs)
  have halt: "(60, TabletInfo (TabletAlias ''c1'' 5), Some (ExternalError ''deadline exceeded''))
      \<in> set (stopSlaves (newEvents (snd (findTargets haltTimesOutWrangler exampleWorker))
           (snd (synchronizeReplication haltTimesOutWrangler
                  (snd (findTargets haltTimesOutWrangler exampleWorker))))))"
    by (simp add: unfold_all newEvents_def haltTimesOutWrangler_def example_defs)
  have t: "trace exampleWorker = []"
    by (simp add: example_defs)
  note inst = interruption_only_at_checkpoints [of exampleWorker haltTimesOutWrangler exampleWorker 60
        "TabletInfo (TabletAlias ''c1'' 5)" "ExternalError ''deadline exceeded''"]
  from inst nc ft halt
  have main: "(\<exists>a. runError haltTimesOutWrangler exampleWorker =
            Some (Errorf ''Cannot stop slave %v: %v'' a (ExternalError ''deadline exceeded''))
          \<and> err (Run haltTimesOutWrangler exampleWorker) =
            Some (Errorf ''Cannot stop slave %v: %v'' a (ExternalError ''deadline exceeded'')))
     \<and> runError haltTimesOutWrangler exampleWorker \<noteq> Some ErrInterrupted
     \<and> err (Run haltTimesOutWrangler exampleWorker) \<noteq> Some ErrInterrupted
     \<and> state (Run haltTimesOutWrangler exampleWorker) = sqlDiffError"
    by blast
  from inst nc
  have ew: "errorWrites (trace (snd (run haltTimesOutWrangler exampleWorker))) = errorWrites (trace exampleWorker)"
    by blast
  have pe: "passedErrors (trace (snd (run haltTimesOutWrangler exampleWorker))) = []"
    by (simp add: unfold_all haltTimesOutWrangler_def example_defs)
  from nc ft halt main ew pe t show ?thesis by simp
qed

section \<open>The cleaner's actions in the synchronization\<close>

lemma findAction_append_StartSlave [simp]:
  "findAction (c @ [StartSlaveAction t]) a = findAction c a"
  by (induction c) (simp_all split: option.splits)

lemma isChangeSlaveTypeFor_setTabletType [simp]:
  "isChangeSlaveTypeFor a (setTabletType t x) = isChangeSlaveTypeFor a x"
  by (cases x) simp_all

lemma findAction_list_update:
  "findAction (c[i := setTabletType t (c ! i)]) a = findAction c a"
proof (induction c arbitrary: i)
  case Nil
  then show ?case by simp
next
  case (Cons x xs)
  then show ?case by (cases i) simp_all
qed

lemma findAction_setActionTabletType [simp]:
  "findAction (setActionTabletType i t c) a = findAction c a"
  by (simp add: setActionTabletType_def findAction_list_update)

lemma Find_Inl [simp]:
  "(FindChangeSlaveTypeActionByTarget wr c a = Inl e) = (findAction c a = None \<and> e = noActionError wr)"
  by (auto simp add: FindChangeSlaveTypeActionByTarget_def split: option.splits)

lemma Find_Inr [simp]:
  "(FindChangeSlaveTypeActionByTarget wr c a = Inr i) = (findAction c a = Some i)"
  by (auto simp add: FindChangeSlaveTypeActionByTarget_def split: option.splits)

lemma sync_needs_actions:
  "fst (synchronizeReplication wr w) = None \<longrightarrow>
   findAction (cleaner w) (alias' (subset w)) \<noteq> None \<and>
   findAction (cleaner w) (alias' (superset w)) \<noteq> None"
  by (simp add: synchronizeReplication_def Let_def case_prod_beta checkpoint_fields
      RecordStartSlaveAction_def split: sum.splits option.splits bool.splits)

lemma sync_subset_no_action:
  "(60, i, None) \<in> set (stopSlaves (newEvents w (snd (synchronizeReplication wr w)))) \<and>
   findAction (cleaner w) (alias' (subset w)) = None \<and>
   errorWrites (newEvents w (snd (synchronizeReplication wr w))) = [] \<longrightarrow>
   fst (synchronizeReplication wr w) =
     Some (Errorf ''cannot find ChangeSlaveType action for %v: %v'' (alias' (subset w)) (noActionError wr)) \<and>
   stopSlaves (newEvents w (snd (synchronizeReplication wr w))) = [(60, i, None)] \<and>
   cleaner (snd (synchronizeReplication wr w)) = cleaner w @ [StartSlaveAction i]"
  by (simp add: synchronizeReplication_def Let_def case_prod_beta checkpoint_fields newEvents_def
      RecordStartSlaveAction_def split: sum.splits option.splits bool.splits)

lemma sync_superset_no_action:
  "stopSlaves (newEvents w (snd (synchronizeReplication wr w))) = [(60, i, None), (60, i', None)] \<and>
   findAction (cleaner w) (alias' (superset w)) = None \<longrightarrow>
   fst (synchronizeReplication wr w) =
     Some (Errorf ''cannot find ChangeSlaveType action for %v: %v'' (alias' (superset w)) (noActionError wr)) \<and>
   (\<exists>c. cleaner (snd (synchronizeReplication wr w)) = c @ [StartSlaveAction i'])"
  by (simp add: synchronizeReplication_def Let_def case_prod_beta checkpoint_fields newEvents_def
      RecordStartSlaveAction_def split: sum.splits option.splits bool.splits)

text \<open>
  C10, amended. \<open>synchronizeReplication\<close> returns no error only if the cleaner it was
  given holds a \<open>ChangeSlaveType\<close> action for the alias of the subset and one for the
  alias of the superset. If the subset replica was halted (a \<open>StopSlave\<close> succeeded), no
  interruption was recorded at the checkpoint that follows and the cleaner has no such
  action for the subset's alias, the phase returns the error of line 262 around the
  failed search, that halt is the only one, and the \<open>StartSlave\<close> action of the halted
  tablet has been added to the cleaner. If both replicas were halted and the cleaner has
  no such action for the superset's alias, the phase returns the error of line 290 and
  the \<open>StartSlave\<close> action of the superset's tablet is the last of the cleaner.
\<close>

theorem synchronizeReplication_needs_recorded_actions:
  "(fst (synchronizeReplication wr w) = None \<longrightarrow>
      findAction (cleaner w) (alias' (subset w)) \<noteq> None \<and>
      findAction (cleaner w) (alias' (superset w)) \<noteq> None)
   \<and> ((60, i, None) \<in> set (stopSlaves (newEvents w (snd (synchronizeReplication wr w)))) \<and>
       findAction (cleaner w) (alias' (subset w)) = None \<and>
       errorWrites (newEvents w (snd (synchronizeReplication wr w))) = [] \<longrightarrow>
         fst (synchronizeReplication wr w) =
           Some (Errorf ''cannot find ChangeSlaveType action for %v: %v'' (alias' (subset w))
                   (noActionError wr)) \<and>
         stopSlaves (newEvents w (snd (synchronizeReplication wr w))) = [(60, i, None)] \<and>
         cleaner (snd (synchronizeReplication wr w)) = cleaner w @ [StartSlaveAction i])
   \<and> (stopSlaves (newEvents w (snd (synchronizeReplication wr w))) = [(60, i, None), (60, i', None)] \<and>
       findAction (cleaner w) (alias' (superset w)) = None \<longrightarrow>
         fst (synchronizeReplication wr w) =
           Some (Errorf ''cannot find ChangeSlaveType action for %v: %v'' (alias' (superset w))
                   (noActionError wr)) \<and>
         (\<exists>c. cleaner (snd (synchronizeReplication wr w)) = c @ [StartSlaveAction i']))"
  using sync_needs_actions [of wr w] sync_subset_no_action [of i w wr]
    sync_superset_no_action [of w wr i i']
  by blast

text \<open>The example workers, written out.\<close>

lemma readyWorker_eq:
  "readyWorker =
     \<lparr>cell = ''c1'', shard = [],
      cleaner = [ChangeSlaveTypeAction (TabletAlias ''c1'' 3) TYPE_RDONLY,
                 ChangeSlaveTypeAction (TabletAlias ''c1'' 5) TYPE_RDONLY],
      ctx = ctxActive,
      superset = \<lparr>Keyspace = ''big'', Shard = ''0'', SQL = ''select id from t'', alias' = TabletAlias ''c1'' 3\<rparr>,
      subset = \<lparr>Keyspace = ''small'', Shard = ''0'', SQL = ''select id from t'', alias' = TabletAlias ''c1'' 5\<rparr>,
      state = sqlDiffFindTargets, err = None,
      trace = [EvSetState sqlDiffFindTargets,
               EvFindChecker ''c1'' ''big'' ''0'' None, EvAliasWrite Superset (TabletAlias ''c1'' 3),
               EvFindChecker ''c1'' ''small'' ''0'' None, EvAliasWrite Subset (TabletAlias ''c1'' 5)]\<rparr>"
  by (simp add: readyWorker_def findTargets_def setState_def emit_def now_def Let_def example_defs)

lemma haltedWorker_eq:
  "haltedWorker = readyWorker\<lparr>cleaner := []\<rparr>"
  by (simp add: haltedWorker_def readyWorker_def noActionWrangler_def findTargets_def setState_def
      emit_def now_def Let_def example_defs)

lemmas eval_defs = synchronizeReplication_def checkInterrupted_def concurrently_def Cancel_def
  FindChangeSlaveTypeActionByTarget_def RecordStartSlaveAction_def setActionTabletType_def
  setState_def recordError_def emit_def now_def newEvents_def Let_def

theorem synchronizeReplication_needs_recorded_actions_witness:
  "fst (synchronizeReplication exampleWrangler readyWorker) = None
   \<and> findAction (cleaner readyWorker) (alias' (subset readyWorker)) \<noteq> None
   \<and> findAction (cleaner readyWorker) (alias' (superset readyWorker)) \<noteq> None
   \<and> findAction (cleaner haltedWorker) (alias' (subset haltedWorker)) = None
   \<and> fst (synchronizeReplication noActionWrangler haltedWorker) =
       Some (Errorf ''cannot find ChangeSlaveType action for %v: %v'' (TabletAlias ''c1'' 5)
               (ExternalError ''node does not exist''))
   \<and> cleaner (snd (synchronizeReplication noActionWrangler haltedWorker)) =
       [StartSlaveAction (TabletInfo (TabletAlias ''c1'' 5))]
   \<and> findAction (cleaner subsetOnlyWorker) (alias' (superset subsetOnlyWorker)) = None
   \<and> fst (synchronizeReplication noActionWrangler subsetOnlyWorker) =
       Some (Errorf ''cannot find ChangeSlaveType action for %v: %v'' (TabletAlias ''c1'' 3)
               (ExternalError ''node does not exist''))
   \<and> (\<exists>c. cleaner (snd (synchronizeReplication noActionWrangler subsetOnlyWorker)) =
         c @ [StartSlaveAction (TabletInfo (TabletAlias ''c1'' 3))])"
proof -
  have ok: "fst (synchronizeReplication exampleWrangler readyWorker) = None"
    by (simp add: readyWorker_eq eval_defs exampleWrangler_def)
  have halt1: "(60, TabletInfo (TabletAlias ''c1'' 5), None)
      \<in> set (stopSlaves (newEvents haltedWorker (snd (synchronizeReplication noActionWrangler haltedWorker))))"
    by (simp add: haltedWorker_eq readyWorker_eq eval_defs noActionWrangler_def exampleWrangler_def)
  have none1: "findAction (cleaner haltedWorker) (alias' (subset haltedWorker)) = None"
    by (simp add: haltedWorker_eq readyWorker_eq)
  have quiet1: "errorWrites (newEvents haltedWorker (snd (synchronizeReplication noActionWrangler haltedWorker))) = []"
    by (simp add: haltedWorker_eq readyWorker_eq eval_defs noActionWrangler_def exampleWrangler_def)
  have halt2: "stopSlaves (newEvents subsetOnlyWorker (snd (synchronizeReplication noActionWrangler subsetOnlyWorker))) =
      [(60, TabletInfo (TabletAlias ''c1'' 5), None), (60, TabletInfo (TabletAlias ''c1'' 3), None)]"
    by (simp add: subsetOnlyWorker_def haltedWorker_eq readyWorker_eq eval_defs noActionWrangler_def
        exampleWrangler_def)
  have none2: "findAction (cleaner subsetOnlyWorker) (alias' (superset subsetOnlyWorker)) = None"
    by (simp add: subsetOnlyWorker_def haltedWorker_eq readyWorker_eq)
  have s1: "alias' (subset haltedWorker) = TabletAlias ''c1'' 5" "cleaner haltedWorker = []"
    "noActionError noActionWrangler = ExternalError ''node does not exist''"
    "alias' (superset subsetOnlyWorker) = TabletAlias ''c1'' 3"
    by (simp_all add: subsetOnlyWorker_def haltedWorker_eq readyWorker_eq noActionWrangler_def
        exampleWrangler_def)
  from synchronizeReplication_needs_recorded_actions [where wr = exampleWrangler and w = readyWorker] ok
  have a: "findAction (cleaner readyWorker) (alias' (subset readyWorker)) \<noteq> None
      \<and> findAction (cleaner readyWorker) (alias' (superset readyWorker)) \<noteq> None"
    by blast
  from synchronizeReplication_needs_recorded_actions [where wr = noActionWrangler and w = haltedWorker
      and i = "TabletInfo (TabletAlias ''c1'' 5)"] halt1 none1 quiet1
  have b: "fst (synchronizeReplication noActionWrangler haltedWorker) =
           Some (Errorf ''cannot find ChangeSlaveType action for %v: %v'' (alias' (subset haltedWorker))
                   (noActionError noActionWrangler)) \<and>
         cleaner (snd (synchronizeReplication noActionWrangler haltedWorker)) =
           cleaner haltedWorker @ [StartSlaveAction (TabletInfo (TabletAlias ''c1'' 5))]"
    by blast
  from synchronizeReplication_needs_recorded_actions [where wr = noActionWrangler and w = subsetOnlyWorker
      and i = "TabletInfo (TabletAlias ''c1'' 5)" and i' = "TabletInfo (TabletAlias ''c1'' 3)"]
    halt2 none2
  have c: "fst (synchronizeReplication noActionWrangler subsetOnlyWorker) =
           Some (Errorf ''cannot find ChangeSlaveType action for %v: %v''
                   (alias' (superset subsetOnlyWorker)) (noActionError noActionWrangler)) \<and>
         (\<exists>c. cleaner (snd (synchronizeReplication noActionWrangler subsetOnlyWorker)) =
            c @ [StartSlaveAction (TabletInfo (TabletAlias ''c1'' 3))])"
    by blast
  from ok a b c none1 none2 show ?thesis
    by (simp only: s1 append_Nil simp_thms)
qed

text \<open>
  C10, as the claim has it, fails: the subset replica is halted, the cleaner has no
  \<open>ChangeSlaveType\<close> action for its alias, and \<open>Cancel\<close> is called while the halt is in
  flight. The checkpoint of line 253 comes before the search: the phase returns the
  interrupted error, not the error of the failed search, and nothing was recorded.
\<close>

theorem halted_without_action_returns_interrupted:
  "findAction (cleaner haltedWorker) (alias' (subset haltedWorker)) = None
   \<and> stopSlaves (newEvents haltedWorker (snd (synchronizeReplication noActionCancelWrangler haltedWorker))) =
       [(60, TabletInfo (TabletAlias ''c1'' 5), None)]
   \<and> fst (synchronizeReplication noActionCancelWrangler haltedWorker) = Some ErrInterrupted
   \<and> cleaner (snd (synchronizeReplication noActionCancelWrangler haltedWorker)) = []"
  by (simp add: haltedWorker_eq readyWorker_eq eval_defs noActionCancelWrangler_def noActionWrangler_def
      exampleWrangler_def)

section \<open>Two runs that end wrongly\<close>

text \<open>
  C4: the code at the failing input, and beside it the same worker when nobody cancels.
  \<open>Cancel\<close> is called while the \<open>StopSlave\<close> of the subset is in flight. The halt succeeds,
  the checkpoint of line 253 returns the interrupted error, and line 259 is never
  reached: the cleaner still holds the two \<open>ChangeSlaveType\<close> actions to rdonly and no
  \<open>StartSlave\<close> action, so the cleanup leaves the replication of the subset replica
  stopped. With no cancellation the order is: halt of the subset, its \<open>StartSlave\<close>
  action, the sleep of 5 seconds, halt of the superset, its \<open>StartSlave\<close> action, both
  \<open>ChangeSlaveType\<close> actions turned to spare.
\<close>

theorem cancel_between_halt_and_undo:
  "newEvents readyWorker (snd (synchronizeReplication cancelDuringHaltWrangler readyWorker)) =
     [EvSetState sqlDiffSynchronizeReplication,
      EvInfof ''Stopping replication on subset slave %v'' [ArgAlias (TabletAlias ''c1'' 5)],
      EvGetTablet (TabletAlias ''c1'' 5) (Inr (TabletInfo (TabletAlias ''c1'' 5))),
      EvStopSlave 60 (TabletInfo (TabletAlias ''c1'' 5)) None,
      EvRecordError (Some ErrInterrupted)]
   \<and> fst (synchronizeReplication cancelDuringHaltWrangler readyWorker) = Some ErrInterrupted
   \<and> cleaner (snd (synchronizeReplication cancelDuringHaltWrangler readyWorker)) =
       [ChangeSlaveTypeAction (TabletAlias ''c1'' 3) TYPE_RDONLY,
        ChangeSlaveTypeAction (TabletAlias ''c1'' 5) TYPE_RDONLY]
   \<and> newEvents readyWorker (snd (synchronizeReplication exampleWrangler readyWorker)) =
     [EvSetState sqlDiffSynchronizeReplication,
      EvInfof ''Stopping replication on subset slave %v'' [ArgAlias (TabletAlias ''c1'' 5)],
      EvGetTablet (TabletAlias ''c1'' 5) (Inr (TabletInfo (TabletAlias ''c1'' 5))),
      EvStopSlave 60 (TabletInfo (TabletAlias ''c1'' 5)) None,
      EvRecordStartSlaveAction (TabletInfo (TabletAlias ''c1'' 5)),
      EvSleep 5,
      EvInfof ''Stopping replication on superset slave %v'' [ArgAlias (TabletAlias ''c1'' 3)],
      EvGetTablet (TabletAlias ''c1'' 3) (Inr (TabletInfo (TabletAlias ''c1'' 3))),
      EvStopSlave 60 (TabletInfo (TabletAlias ''c1'' 3)) None,
      EvRecordStartSlaveAction (TabletInfo (TabletAlias ''c1'' 3))]
   \<and> cleaner (snd (synchronizeReplication exampleWrangler readyWorker)) =
       [ChangeSlaveTypeAction (TabletAlias ''c1'' 3) TYPE_SPARE,
        ChangeSlaveTypeAction (TabletAlias ''c1'' 5) TYPE_SPARE,
        StartSlaveAction (TabletInfo (TabletAlias ''c1'' 5)),
        StartSlaveAction (TabletInfo (TabletAlias ''c1'' 3))]
   \<and> runError cancelDuringHaltWrangler exampleWorker = Some ErrInterrupted
   \<and> stopSlaves (trace (snd (run cancelDuringHaltWrangler exampleWorker))) =
       [(60, TabletInfo (TabletAlias ''c1'' 5), None)]
   \<and> cleaner (snd (run cancelDuringHaltWrangler exampleWorker)) =
       [ChangeSlaveTypeAction (TabletAlias ''c1'' 3) TYPE_RDONLY,
        ChangeSlaveTypeAction (TabletAlias ''c1'' 5) TYPE_RDONLY]"
proof -
  have phase: "newEvents readyWorker (snd (synchronizeReplication cancelDuringHaltWrangler readyWorker)) =
     [EvSetState sqlDiffSynchronizeReplication,
      EvInfof ''Stopping replication on subset slave %v'' [ArgAlias (TabletAlias ''c1'' 5)],
      EvGetTablet (TabletAlias ''c1'' 5) (Inr (TabletInfo (TabletAlias ''c1'' 5))),
      EvStopSlave 60 (TabletInfo (TabletAlias ''c1'' 5)) None,
      EvRecordError (Some ErrInterrupted)]
   \<and> fst (synchronizeReplication cancelDuringHaltWrangler readyWorker) = Some ErrInterrupted
   \<and> cleaner (snd (synchronizeReplication cancelDuringHaltWrangler readyWorker)) =
       [ChangeSlaveTypeAction (TabletAlias ''c1'' 3) TYPE_RDONLY,
        ChangeSlaveTypeAction (TabletAlias ''c1'' 5) TYPE_RDONLY]"
    by (simp add: readyWorker_eq eval_defs cancelDuringHaltWrangler_def exampleWrangler_def)
  have quiet: "newEvents readyWorker (snd (synchronizeReplication exampleWrangler readyWorker)) =
     [EvSetState sqlDiffSynchronizeReplication,
      EvInfof ''Stopping replication on subset slave %v'' [ArgAlias (TabletAlias ''c1'' 5)],
      EvGetTablet (TabletAlias ''c1'' 5) (Inr (TabletInfo (TabletAlias ''c1'' 5))),
      EvStopSlave 60 (TabletInfo (TabletAlias ''c1'' 5)) None,
      EvRecordStartSlaveAction (TabletInfo (TabletAlias ''c1'' 5)),
      EvSleep 5,
      EvInfof ''Stopping replication on superset slave %v'' [ArgAlias (TabletAlias ''c1'' 3)],
      EvGetTablet (TabletAlias ''c1'' 3) (Inr (TabletInfo (TabletAlias ''c1'' 3))),
      EvStopSlave 60 (TabletInfo (TabletAlias ''c1'' 3)) None,
      EvRecordStartSlaveAction (TabletInfo (TabletAlias ''c1'' 3))]
   \<and> cleaner (snd (synchronizeReplication exampleWrangler readyWorker)) =
       [ChangeSlaveTypeAction (TabletAlias ''c1'' 3) TYPE_SPARE,
        ChangeSlaveTypeAction (TabletAlias ''c1'' 5) TYPE_SPARE,
        StartSlaveAction (TabletInfo (TabletAlias ''c1'' 5)),
        StartSlaveAction (TabletInfo (TabletAlias ''c1'' 3))]"
    by (simp add: readyWorker_eq eval_defs exampleWrangler_def)
  have whole: "runError cancelDuringHaltWrangler exampleWorker = Some ErrInterrupted
   \<and> stopSlaves (trace (snd (run cancelDuringHaltWrangler exampleWorker))) =
       [(60, TabletInfo (TabletAlias ''c1'' 5), None)]
   \<and> cleaner (snd (run cancelDuringHaltWrangler exampleWorker)) =
       [ChangeSlaveTypeAction (TabletAlias ''c1'' 3) TYPE_RDONLY,
        ChangeSlaveTypeAction (TabletAlias ''c1'' 5) TYPE_RDONLY]"
    by (simp add: runError_def unfold_all cancelDuringHaltWrangler_def example_defs
        setState_def recordError_def emit_def now_def)
  from phase quiet whole show ?thesis by (simp only: simp_thms)
qed

text \<open>
  C2: the code at the failing input. Everything succeeds but the differ's \<open>Go\<close>, which
  returns a read error. \<open>diff\<close> logs it (line 331) and returns nil (line 338), unlike
  the three failures before it in the same function, which are logged and returned:
  \<open>run\<close> returns no error, the run ends in the state done with no error, and the status
  says success.
\<close>

theorem differ_failure_ends_done:
  "runError differFailsWrangler exampleWorker = None
   \<and> EvDifferGo 0 (Some (ExternalError ''read error'')) \<in> set (trace (Run differFailsWrangler exampleWorker))
   \<and> state (Run differFailsWrangler exampleWorker) = sqlDiffDone
   \<and> err (Run differFailsWrangler exampleWorker) = None
   \<and> StatusAsText differFailsWrangler (Run differFailsWrangler exampleWorker) =
       Some (''Working on: small/0'' @ [CHR 10] @ ''State: done'' @ [CHR 10] @ ''Success.'' @ [CHR 10])"
  by (simp add: runError_def unfold_all StatusAsText_def differFailsWrangler_def example_defs
      setState_def recordError_def emit_def now_def)

end
